theory Spec2Isabelle
  imports Complex_Main
begin

section \<open>The host document, as the two scripts read and write it\<close>

text \<open>
  The scripts \<^verbatim>\<open>create_3d_from_heightmap.py\<close> and \<^verbatim>\<open>render_preview.py\<close> are
  sequences of calls to the host's scripting interface (\<^verbatim>\<open>bpy\<close>). The host is not
  part of the repository. Its document is modelled as a record of the collections and
  settings the scripts touch; each host call the scripts make is a small function on that
  record, named after the call. An operator is taken to run, as the scripts take it; what
  it then does to the document, and to which objects, is the host's. A value the host
  hands back may be \<^verbatim>\<open>None\<close>, and a lookup by name may find nothing: a script that
  goes on regardless raises, and the run ends there with the document as it is.

  Objects, meshes, materials and textures are shared mutable data blocks: each kind is a
  store (a function from handles to values) with the list of live handles. A script
  variable holding a data block is its handle; the scripts hold handles only of blocks
  they have just created, so no read goes through a handle of a removed block.

  Python's integers are \<open>int\<close>. Its floats are carried as \<open>real\<close>: the scripts store and
  print them, and compute with them only in the difference of two locations, which the
  host turns into a rotation.
\<close>

type_synonym vec3 = "real \<times> real \<times> real"
type_synonym rgba = "real \<times> real \<times> real \<times> real"

text \<open>A printed line is kept as the parts of its f-string, numbers unformatted.\<close>

datatype tok = Txt string | IntV int | FloatV real

type_synonym line = "tok list"

record image =
  img_name :: string
  img_filepath :: string
  img_size :: "nat \<times> nat"

record texture =
  tex_name :: string
  tex_type :: string
  tex_image :: "image option"

text \<open>
  A shader node: its type identifier, its editor location, the image of an image-texture
  node, and the default values the script has written to input sockets.
\<close>

record node =
  nd_type :: string
  nd_location :: "real \<times> real"
  nd_image :: "image option"
  nd_inputs :: "(string \<times> real) list"

text \<open>A link joins an output socket of one node to an input socket of another; nodes are
  named by their position in the tree's node list.\<close>

record link =
  from_node :: nat
  from_socket :: string
  to_node :: nat
  to_socket :: string

record material =
  mat_name :: string
  use_nodes :: bool
  nodes :: "node list"
  links :: "link list"

text \<open>
  A mesh data block. Of its geometry the scripts read only the number of vertices, so the
  geometry is kept as the numbers of vertices, edges and faces. \<open>msh_select_all\<close> says
  whether every element is selected in edit mode (otherwise none is): these are the two
  selections the script can make.
\<close>

record mesh =
  msh_name :: string
  msh_size :: real
  verts :: nat
  edges :: nat
  faces :: nat
  msh_select_all :: bool
  msh_uv_layers :: "string list"
  msh_materials :: "nat list"

record subsurf_modifier =
  ss_name :: string
  ss_levels :: int
  ss_render_levels :: int

record displace_modifier =
  dp_name :: string
  dp_strength :: real
  dp_mid_level :: real
  dp_texture :: "nat option"
  dp_texture_coords :: string

datatype modifier = SUBSURF subsurf_modifier | DISPLACE displace_modifier

record camera_data =
  lens :: real
  clip_end :: real

record light_data =
  light_type :: string
  energy :: real

datatype obdata = MESH nat | CAMERA camera_data | LIGHT light_data | OTHER string

text \<open>
  An object of the scene. \<open>ob_hide_select\<close> is the host's \<^verbatim>\<open>hide_select\<close> and
  \<open>ob_visible\<close> its \<^verbatim>\<open>visible_get()\<close>: an object that is hidden, or that is barred from
  selection, is out of reach of the selection operators.
\<close>

record object =
  ob_name :: string
  ob_location :: vec3
  ob_rotation_euler :: vec3
  ob_select :: bool
  ob_hide_select :: bool
  ob_visible :: bool
  ob_data :: obdata
  ob_modifiers :: "modifier list"

text \<open>
  A world, as far as \<^verbatim>\<open>setup_world\<close> reads and writes it: the flag, and its node tree
  if it has one. Of the tree the script looks up one node by name and writes two of its
  inputs, so the tree is kept as its shader nodes by name, each with its colour and its
  strength. A scene need not have a world.
\<close>

record background =
  bg_color :: rgba
  bg_strength :: real

record world =
  w_use_nodes :: bool
  w_node_tree :: "(string \<rightharpoonup> background) option"

record render_settings =
  engine :: string
  render_filepath :: string
  resolution_x :: int
  resolution_y :: int
  resolution_percentage :: int
  file_format :: string
  color_mode :: string

record document =
  object_ids :: "nat list"
  object_at :: "nat \<Rightarrow> object"
  mesh_ids :: "nat list"
  mesh_at :: "nat \<Rightarrow> mesh"
  material_ids :: "nat list"
  material_at :: "nat \<Rightarrow> material"
  texture_ids :: "nat list"
  texture_at :: "nat \<Rightarrow> texture"
  images :: "image list"
  active_object :: "nat option"
  mode :: string
  scene_camera :: "nat option"
  scene_world :: "world option"
  render :: render_settings
  cycles_samples :: int
  eevee_taa_render_samples :: int

text \<open>A rendered image file: what the host wrote, as far as the scripts decide it.\<close>

record render_result =
  rr_format :: string
  rr_color_mode :: string
  rr_width :: int
  rr_height :: int

text \<open>
  The host process while a script runs: the open document, what has been printed, and the
  files written (saved documents and rendered images, each with its path).
\<close>

record host =
  doc :: document
  stdout :: "line list"
  blend_files :: "(string \<times> document) list"
  image_files :: "(string \<times> render_result) list"

text \<open>
  What a run depends on outside the document: the directory of the script
  (\<^verbatim>\<open>str(Path(__file__).parent)\<close>), which paths exist, the pixel size the host reads
  from an image file, the settings the host gives a new modifier, camera, light or
  background shader before the script writes its own, and the name it gives the
  background shader of a new world tree (\<^verbatim>\<open>Background\<close>, unless the host is set to
  translate the names of new data).
\<close>

record env =
  script_dir :: string
  path_exists :: "string \<Rightarrow> bool"
  image_dims :: "string \<Rightarrow> nat \<times> nat"
  default_subsurf :: subsurf_modifier
  default_displace :: displace_modifier
  default_camera :: camera_data
  default_light :: light_data
  default_background :: background
  default_background_name :: string

text \<open>
  What a script raises. A run of a script either returns, with the host as it leaves it,
  or ends in an exception, with the host as it is at that point.
\<close>

datatype error = AttributeError string | KeyError string

type_synonym outcome = "error \<times> host + host"

definition returned :: "outcome \<Rightarrow> bool" where
  "returned r = (case r of Inl _ \<Rightarrow> False | Inr _ \<Rightarrow> True)"

definition ended :: "outcome \<Rightarrow> host" where
  "ended r = (case r of Inl x \<Rightarrow> snd x | Inr h \<Rightarrow> h)"

section \<open>Configuration\<close>

definition IMAGE_FILENAME :: string where
  "IMAGE_FILENAME = ''mandelbrot2d.png''"

definition SUBDIVISION_LEVEL :: int where
  "SUBDIVISION_LEVEL = 8"

definition DISPLACEMENT_STRENGTH :: real where
  "DISPLACEMENT_STRENGTH = 2.0"

definition PLANE_SIZE :: real where
  "PLANE_SIZE = 10.0"

definition OUTPUT_FILENAME :: string where
  "OUTPUT_FILENAME = ''mandelbrot_3d_preview.png''"

definition RENDER_SAMPLES :: int where
  "RENDER_SAMPLES = 64"

section \<open>Python library calls\<close>

definition print_line :: "line \<Rightarrow> host \<Rightarrow> host" where
  "print_line l h = h\<lparr>stdout := stdout h @ [l]\<rparr>"

definition banner :: line where
  "banner = [Txt (replicate 60 (CHR ''=''))]"

text \<open>\<^verbatim>\<open>str(d / f)\<close> for a directory rendered by \<^verbatim>\<open>pathlib\<close>.\<close>

definition path_join :: "string \<Rightarrow> string \<Rightarrow> string" where
  "path_join d f = (if d = ''.'' then f else if d = ''/'' then ''/'' @ f else d @ ''/'' @ f)"

text \<open>\<^verbatim>\<open>os.path.basename\<close>: what follows the last slash.\<close>

definition basename :: "string \<Rightarrow> string" where
  "basename p = rev (takeWhile (\<lambda>c. c \<noteq> CHR ''/'') (rev p))"

section \<open>Host calls\<close>

text \<open>A host call made from a script: one that only changes the document, and one that
  also hands a handle back.\<close>

definition on_doc :: "(document \<Rightarrow> document) \<Rightarrow> host \<Rightarrow> host" where
  "on_doc f h = h\<lparr>doc := f (doc h)\<rparr>"

definition with_doc :: "(document \<Rightarrow> 'a \<times> document) \<Rightarrow> host \<Rightarrow> 'a \<times> host" where
  "with_doc f h = (let (x, d) = f (doc h) in (x, h\<lparr>doc := d\<rparr>))"

text \<open>A handle not among the live ones.\<close>

fun fresh :: "nat list \<Rightarrow> nat" where
  "fresh [] = 0"
| "fresh (i # ids) = max (Suc i) (fresh ids)"

definition upd_object :: "nat \<Rightarrow> (object \<Rightarrow> object) \<Rightarrow> document \<Rightarrow> document" where
  "upd_object i f d = d\<lparr>object_at := (object_at d)(i := f (object_at d i))\<rparr>"

definition upd_mesh :: "nat \<Rightarrow> (mesh \<Rightarrow> mesh) \<Rightarrow> document \<Rightarrow> document" where
  "upd_mesh i f d = d\<lparr>mesh_at := (mesh_at d)(i := f (mesh_at d i))\<rparr>"

definition upd_material :: "nat \<Rightarrow> (material \<Rightarrow> material) \<Rightarrow> document \<Rightarrow> document" where
  "upd_material i f d = d\<lparr>material_at := (material_at d)(i := f (material_at d i))\<rparr>"

definition upd_texture :: "nat \<Rightarrow> (texture \<Rightarrow> texture) \<Rightarrow> document \<Rightarrow> document" where
  "upd_texture i f d = d\<lparr>texture_at := (texture_at d)(i := f (texture_at d i))\<rparr>"

text \<open>The objects the selection operators reach: the visible ones that may be selected.\<close>

definition selectable :: "object \<Rightarrow> bool" where
  "selectable ob \<longleftrightarrow> ob_visible ob \<and> \<not> ob_hide_select ob"

text \<open>\<^verbatim>\<open>bpy.ops.object.select_all(action='SELECT')\<close>: every object within reach becomes
  selected; the others stay as they are.\<close>

definition object_select_all :: "document \<Rightarrow> document" where
  "object_select_all d =
     d\<lparr>object_at := (\<lambda>i. if i \<in> set (object_ids d) \<and> selectable (object_at d i)
                             then (object_at d i)\<lparr>ob_select := True\<rparr> else object_at d i)\<rparr>"

text \<open>\<^verbatim>\<open>bpy.ops.object.delete(use_global=False)\<close>: the selected objects within reach
  leave the document; a reference of the scene to a deleted object is cleared.\<close>

definition keep_live :: "nat list \<Rightarrow> nat option \<Rightarrow> nat option" where
  "keep_live ids r = (case r of None \<Rightarrow> None | Some i \<Rightarrow> if i \<in> set ids then Some i else None)"

definition object_delete :: "document \<Rightarrow> document" where
  "object_delete d =
     (let ids = filter (\<lambda>i. \<not> (ob_select (object_at d i) \<and> selectable (object_at d i)))
                  (object_ids d)
      in d\<lparr>object_ids := ids,
            active_object := keep_live ids (active_object d),
            scene_camera := keep_live ids (scene_camera d)\<rparr>)"

text \<open>
  \<^verbatim>\<open>bpy.data.meshes.remove(mesh)\<close>: with the default \<^verbatim>\<open>do_unlink=True\<close> the host also
  deletes the objects whose data the mesh is. \<^verbatim>\<open>bpy.data.materials.remove(material)\<close>
  takes the material out of the document.
\<close>

definition meshes_remove :: "nat \<Rightarrow> document \<Rightarrow> document" where
  "meshes_remove m d =
     (let ids = filter (\<lambda>i. ob_data (object_at d i) \<noteq> MESH m) (object_ids d)
      in d\<lparr>mesh_ids := remove1 m (mesh_ids d),
            object_ids := ids,
            active_object := keep_live ids (active_object d),
            scene_camera := keep_live ids (scene_camera d)\<rparr>)"

definition materials_remove :: "nat \<Rightarrow> document \<Rightarrow> document" where
  "materials_remove m d = d\<lparr>material_ids := remove1 m (material_ids d)\<rparr>"

text \<open>\<^verbatim>\<open>bpy.data.images.load(filepath)\<close>: a new image named after the file.\<close>

definition images_load :: "env \<Rightarrow> string \<Rightarrow> document \<Rightarrow> image \<times> document" where
  "images_load e p d =
     (let img = \<lparr>img_name = basename p, img_filepath = p, img_size = image_dims e p\<rparr>
      in (img, d\<lparr>images := images d @ [img]\<rparr>))"

text \<open>
  \<^verbatim>\<open>bpy.ops.mesh.primitive_plane_add(size=..., location=...)\<close>: one quad with its
  four vertices and four edges, in a new mesh object that becomes the active object. The
  handle returned is what \<^verbatim>\<open>bpy.context.active_object\<close> gives right after the call. An
  object an operator adds is visible, selectable and selected.
\<close>

definition primitive_plane_add :: "real \<Rightarrow> vec3 \<Rightarrow> document \<Rightarrow> nat \<times> document" where
  "primitive_plane_add plane_size location d =
     (let m = fresh (mesh_ids d);
          i = fresh (object_ids d);
          msh = \<lparr>msh_name = ''Plane'', msh_size = plane_size, verts = 4, edges = 4, faces = 1,
                 msh_select_all = True, msh_uv_layers = [''UVMap''], msh_materials = []\<rparr>;
          ob = \<lparr>ob_name = ''Plane'', ob_location = location, ob_rotation_euler = (0, 0, 0),
                ob_select = True, ob_hide_select = False, ob_visible = True,
                ob_data = MESH m, ob_modifiers = []\<rparr>
      in (i, d\<lparr>mesh_ids := mesh_ids d @ [m], mesh_at := (mesh_at d)(m := msh),
                object_ids := object_ids d @ [i], object_at := (object_at d)(i := ob),
                active_object := Some i\<rparr>))"

text \<open>\<^verbatim>\<open>bpy.ops.object.camera_add(location=...)\<close>\<close>

definition camera_add :: "env \<Rightarrow> vec3 \<Rightarrow> document \<Rightarrow> nat \<times> document" where
  "camera_add e location d =
     (let i = fresh (object_ids d);
          ob = \<lparr>ob_name = ''Camera'', ob_location = location, ob_rotation_euler = (0, 0, 0),
                ob_select = True, ob_hide_select = False, ob_visible = True,
                ob_data = CAMERA (default_camera e), ob_modifiers = []\<rparr>
      in (i, d\<lparr>object_ids := object_ids d @ [i], object_at := (object_at d)(i := ob),
                active_object := Some i\<rparr>))"

text \<open>\<^verbatim>\<open>bpy.ops.object.light_add(type=..., location=...)\<close>\<close>

definition light_add :: "env \<Rightarrow> string \<Rightarrow> vec3 \<Rightarrow> document \<Rightarrow> nat \<times> document" where
  "light_add e type location d =
     (let i = fresh (object_ids d);
          ob = \<lparr>ob_name = ''Light'', ob_location = location, ob_rotation_euler = (0, 0, 0),
                ob_select = True, ob_hide_select = False, ob_visible = True,
                ob_data = LIGHT ((default_light e)\<lparr>light_type := type\<rparr>),
                ob_modifiers = []\<rparr>
      in (i, d\<lparr>object_ids := object_ids d @ [i], object_at := (object_at d)(i := ob),
                active_object := Some i\<rparr>))"

text \<open>Writes to the data of a camera or light object (\<^verbatim>\<open>ob.data.lens = ...\<close>).\<close>

fun on_camera :: "(camera_data \<Rightarrow> camera_data) \<Rightarrow> object \<Rightarrow> object" where
  "on_camera f ob = (case ob_data ob of CAMERA c \<Rightarrow> ob\<lparr>ob_data := CAMERA (f c)\<rparr> | _ \<Rightarrow> ob)"

fun on_light :: "(light_data \<Rightarrow> light_data) \<Rightarrow> object \<Rightarrow> object" where
  "on_light f ob = (case ob_data ob of LIGHT l \<Rightarrow> ob\<lparr>ob_data := LIGHT (f l)\<rparr> | _ \<Rightarrow> ob)"

text \<open>
  \<^verbatim>\<open>ob.modifiers.new(name=..., type=...)\<close>: the new modifier goes to the end of the
  object's stack; the script holds it by its position there. Of the host's modifier types
  only the two the script asks for are modelled.
\<close>

definition modifiers_new :: "env \<Rightarrow> nat \<Rightarrow> string \<Rightarrow> string \<Rightarrow> document \<Rightarrow> nat \<times> document" where
  "modifiers_new e ob name type d =
     (let k = length (ob_modifiers (object_at d ob));
          new = (if type = ''SUBSURF'' then [SUBSURF ((default_subsurf e)\<lparr>ss_name := name\<rparr>)]
                 else if type = ''DISPLACE'' then [DISPLACE ((default_displace e)\<lparr>dp_name := name\<rparr>)]
                 else [])
      in (k, upd_object ob (\<lambda>x. x\<lparr>ob_modifiers := ob_modifiers x @ new\<rparr>) d))"

definition upd_modifier :: "nat \<Rightarrow> nat \<Rightarrow> (modifier \<Rightarrow> modifier) \<Rightarrow> document \<Rightarrow> document" where
  "upd_modifier ob k f d =
     upd_object ob (\<lambda>x. x\<lparr>ob_modifiers := (ob_modifiers x)[k := f (ob_modifiers x ! k)]\<rparr>) d"

fun on_subsurf :: "(subsurf_modifier \<Rightarrow> subsurf_modifier) \<Rightarrow> modifier \<Rightarrow> modifier" where
  "on_subsurf f (SUBSURF s) = SUBSURF (f s)"
| "on_subsurf f m = m"

fun on_displace :: "(displace_modifier \<Rightarrow> displace_modifier) \<Rightarrow> modifier \<Rightarrow> modifier" where
  "on_displace f (DISPLACE s) = DISPLACE (f s)"
| "on_displace f m = m"

text \<open>\<^verbatim>\<open>bpy.ops.object.mode_set(mode=...)\<close>\<close>

definition mode_set :: "string \<Rightarrow> document \<Rightarrow> document" where
  "mode_set m d = d\<lparr>mode := m\<rparr>"

text \<open>The mesh the edit-mode operators act on: that of the active object, in edit mode.\<close>

definition edit_mesh :: "document \<Rightarrow> nat option" where
  "edit_mesh d =
     (if mode d = ''EDIT''
      then (case active_object d of
              None \<Rightarrow> None
            | Some i \<Rightarrow> (case ob_data (object_at d i) of MESH m \<Rightarrow> Some m | _ \<Rightarrow> None))
      else None)"

text \<open>\<^verbatim>\<open>bpy.ops.mesh.select_all(action='SELECT')\<close>\<close>

definition mesh_select_all :: "document \<Rightarrow> document" where
  "mesh_select_all d =
     (case edit_mesh d of None \<Rightarrow> d | Some m \<Rightarrow> upd_mesh m (\<lambda>x. x\<lparr>msh_select_all := True\<rparr>) d)"

text \<open>
  Modelled from the spec: the host's operator \<^verbatim>\<open>bpy.ops.mesh.subdivide()\<close>, which is
  not part of the repository. The spec calls it uniform quad subdivision by edge
  subdivision: with its default of one cut, every selected edge gets a vertex at its
  middle and every selected quad gets one at its centre, so an edge becomes two, and a
  quad becomes four quads with four new edges inside. The new elements stay selected.
\<close>

definition subdivide_once :: "mesh \<Rightarrow> mesh" where
  "subdivide_once x =
     (if msh_select_all x
      then x\<lparr>verts := verts x + edges x + faces x,
             edges := 2 * edges x + 4 * faces x,
             faces := 4 * faces x\<rparr>
      else x)"

definition mesh_subdivide :: "document \<Rightarrow> document" where
  "mesh_subdivide d = (case edit_mesh d of None \<Rightarrow> d | Some m \<Rightarrow> upd_mesh m subdivide_once d)"

text \<open>\<^verbatim>\<open>bpy.data.materials.new(name=...)\<close>\<close>

definition materials_new :: "string \<Rightarrow> document \<Rightarrow> nat \<times> document" where
  "materials_new name d =
     (let i = fresh (material_ids d);
          mat = \<lparr>mat_name = name, use_nodes = False, nodes = [], links = []\<rparr>
      in (i, d\<lparr>material_ids := material_ids d @ [i], material_at := (material_at d)(i := mat)\<rparr>))"

text \<open>
  \<^verbatim>\<open>material.use_nodes = True\<close>: a material without a node tree gets the host's
  default one, a principled shader linked to a material output.
\<close>

definition new_node :: "string \<Rightarrow> node" where
  "new_node type = \<lparr>nd_type = type, nd_location = (0, 0), nd_image = None, nd_inputs = []\<rparr>"

definition set_use_nodes :: "material \<Rightarrow> material" where
  "set_use_nodes m =
     (if nodes m = []
      then m\<lparr>use_nodes := True,
             nodes := [new_node ''ShaderNodeBsdfPrincipled'', new_node ''ShaderNodeOutputMaterial''],
             links := [\<lparr>from_node = 0, from_socket = ''BSDF'', to_node = 1, to_socket = ''Surface''\<rparr>]\<rparr>
      else m\<lparr>use_nodes := True\<rparr>)"

text \<open>\<^verbatim>\<open>ob.data.materials.append(material)\<close> and \<^verbatim>\<open>len(ob.data.vertices)\<close>, for a
  mesh object.\<close>

definition data_materials_append :: "nat \<Rightarrow> nat \<Rightarrow> document \<Rightarrow> document" where
  "data_materials_append ob mat d =
     (case ob_data (object_at d ob) of
        MESH m \<Rightarrow> upd_mesh m (\<lambda>x. x\<lparr>msh_materials := msh_materials x @ [mat]\<rparr>) d
      | _ \<Rightarrow> d)"

definition len_data_vertices :: "document \<Rightarrow> nat \<Rightarrow> nat" where
  "len_data_vertices d ob = (case ob_data (object_at d ob) of MESH m \<Rightarrow> verts (mesh_at d m) | _ \<Rightarrow> 0)"

text \<open>The node tree of a material: \<^verbatim>\<open>nodes.clear()\<close>, \<^verbatim>\<open>nodes.new(type=...)\<close>, writes
  to a node, and \<^verbatim>\<open>links.new(output, input)\<close>, which replaces a link already ending at
  that input.\<close>

definition nodes_clear :: "nat \<Rightarrow> document \<Rightarrow> document" where
  "nodes_clear mat d = upd_material mat (\<lambda>m. m\<lparr>nodes := [], links := []\<rparr>) d"

definition nodes_new :: "nat \<Rightarrow> string \<Rightarrow> document \<Rightarrow> nat \<times> document" where
  "nodes_new mat type d =
     (length (nodes (material_at d mat)),
      upd_material mat (\<lambda>m. m\<lparr>nodes := nodes m @ [new_node type]\<rparr>) d)"

definition upd_node :: "nat \<Rightarrow> nat \<Rightarrow> (node \<Rightarrow> node) \<Rightarrow> document \<Rightarrow> document" where
  "upd_node mat k f d = upd_material mat (\<lambda>m. m\<lparr>nodes := (nodes m)[k := f (nodes m ! k)]\<rparr>) d"

definition set_input :: "string \<Rightarrow> real \<Rightarrow> node \<Rightarrow> node" where
  "set_input name v n = n\<lparr>nd_inputs := filter (\<lambda>p. fst p \<noteq> name) (nd_inputs n) @ [(name, v)]\<rparr>"

definition links_new :: "nat \<Rightarrow> nat \<times> string \<Rightarrow> nat \<times> string \<Rightarrow> document \<Rightarrow> document" where
  "links_new mat out inp d =
     upd_material mat
       (\<lambda>m. m\<lparr>links := filter (\<lambda>l. \<not> (to_node l = fst inp \<and> to_socket l = snd inp)) (links m)
                        @ [\<lparr>from_node = fst out, from_socket = snd out,
                            to_node = fst inp, to_socket = snd inp\<rparr>]\<rparr>) d"

text \<open>\<^verbatim>\<open>bpy.data.textures.new(name=..., type=...)\<close>\<close>

definition textures_new :: "string \<Rightarrow> string \<Rightarrow> document \<Rightarrow> nat \<times> document" where
  "textures_new name type d =
     (let i = fresh (texture_ids d);
          tex = \<lparr>tex_name = name, tex_type = type, tex_image = None\<rparr>
      in (i, d\<lparr>texture_ids := texture_ids d @ [i], texture_at := (texture_at d)(i := tex)\<rparr>))"

text \<open>
  The world of the scene. \<^verbatim>\<open>world.use_nodes = True\<close> gives a world without a node tree
  the host's default one, whose shader is a background node under the name the host
  gives it; a tree already there is kept as it is. \<^verbatim>\<open>world.node_tree.nodes[name]\<close>
  is a lookup by name, and a write to an input of the node found goes to the world of the
  scene.
\<close>

definition on_world :: "(world \<Rightarrow> world) \<Rightarrow> document \<Rightarrow> document" where
  "on_world f d = d\<lparr>scene_world := map_option f (scene_world d)\<rparr>"

definition world_set_use_nodes :: "env \<Rightarrow> world \<Rightarrow> world" where
  "world_set_use_nodes e w =
     w\<lparr>w_use_nodes := True,
       w_node_tree := (case w_node_tree w of
                         None \<Rightarrow> Some [default_background_name e \<mapsto> default_background e]
                       | Some t \<Rightarrow> Some t)\<rparr>"

definition world_node :: "string \<Rightarrow> document \<Rightarrow> background option" where
  "world_node name d =
     (case scene_world d of
        None \<Rightarrow> None
      | Some w \<Rightarrow> (case w_node_tree w of None \<Rightarrow> None | Some t \<Rightarrow> t name))"

definition on_world_node :: "string \<Rightarrow> (background \<Rightarrow> background) \<Rightarrow> world \<Rightarrow> world" where
  "on_world_node name f w =
     w\<lparr>w_node_tree :=
         map_option (\<lambda>t. case t name of None \<Rightarrow> t | Some b \<Rightarrow> t(name \<mapsto> f b)) (w_node_tree w)\<rparr>"

text \<open>
  Modelled from the spec: the host's vector function
  \<^verbatim>\<open>v.to_track_quat('-Z', 'Y').to_euler()\<close>, which is not part of the repository. The
  spec calls it the standard look-at orientation: the rotation that aims the local
  \<open>-Z\<close> axis along \<open>v\<close> with the local \<open>Y\<close> axis kept upward, as the host's Euler
  angles about \<open>X\<close>, \<open>Y\<close> and \<open>Z\<close>. That is a tilt about \<open>X\<close> away from looking straight
  down, no roll about \<open>Y\<close>, and a heading about \<open>Z\<close>; a vector without a horizontal
  part leaves the heading at zero, and one without length the tilt too.
\<close>

definition to_track_euler :: "vec3 \<Rightarrow> vec3" where
  "to_track_euler v =
     (case v of (x, y, z) \<Rightarrow>
        (let n = sqrt (x\<^sup>2 + y\<^sup>2 + z\<^sup>2);
             r = sqrt (x\<^sup>2 + y\<^sup>2)
         in (if n = 0 then 0 else arccos (- z / n),
             0,
             if r = 0 then 0 else if x \<le> 0 then arccos (y / r) else - arccos (y / r))))"

text \<open>
  Modelled from the spec: how the host reads \<^verbatim>\<open>rotation_euler\<close>, which is what gives
  an orientation its meaning. A vector of the object's local frame is turned about \<open>X\<close>,
  then about \<open>Y\<close>, then about \<open>Z\<close>, by the three angles.
\<close>

definition rotate_euler :: "vec3 \<Rightarrow> vec3 \<Rightarrow> vec3" where
  "rotate_euler r p =
     (case r of (a, b, c) \<Rightarrow> case p of (x, y, z) \<Rightarrow>
        (let y1 = y * cos a - z * sin a;
             z1 = y * sin a + z * cos a;
             x2 = x * cos b + z1 * sin b;
             z2 = z1 * cos b - x * sin b
         in (x2 * cos c - y1 * sin c, x2 * sin c + y1 * cos c, z2)))"

text \<open>\<^verbatim>\<open>bpy.ops.wm.save_as_mainfile(filepath=...)\<close>\<close>

definition save_as_mainfile :: "string \<Rightarrow> host \<Rightarrow> host" where
  "save_as_mainfile p h = h\<lparr>blend_files := blend_files h @ [(p, doc h)]\<rparr>"

text \<open>
  \<^verbatim>\<open>bpy.ops.render.render(write_still=True)\<close>: the host renders the scene at its
  resolution scaled by the percentage and, asked for a still, writes the image to the
  scene's output path in the scene's format and colour mode.
\<close>

definition render_render :: "bool \<Rightarrow> host \<Rightarrow> host" where
  "render_render write_still h =
     (let r = render (doc h);
          img = \<lparr>rr_format = file_format r, rr_color_mode = color_mode r,
                 rr_width = resolution_x r * resolution_percentage r div 100,
                 rr_height = resolution_y r * resolution_percentage r div 100\<rparr>
      in if write_still then h\<lparr>image_files := image_files h @ [(render_filepath r, img)]\<rparr> else h)"

text \<open>
  Modelled from the spec: what the host's displacement modifier, which is not part of the
  repository, does with its settings. A vertex is offset along its normal by the sampled
  texture value (0 for the darkest pixel, 1 for the brightest), less the midpoint, times
  the strength.
\<close>

definition displacement :: "displace_modifier \<Rightarrow> real \<Rightarrow> real" where
  "displacement m v = dp_strength m * (v - dp_mid_level m)"

section \<open>The scene builder\<close>

text \<open>\<^verbatim>\<open>clear_scene\<close>: both loops run over the collection as it is when they start.\<close>

definition clear_scene :: "host \<Rightarrow> host" where
  "clear_scene h =
     (let h = on_doc object_select_all h;
          h = on_doc object_delete h;
          h = on_doc (\<lambda>d. fold meshes_remove (mesh_ids d) d) h;
          h = on_doc (\<lambda>d. fold materials_remove (material_ids d) d) h
      in h)"

definition load_image :: "env \<Rightarrow> string \<Rightarrow> host \<Rightarrow> image option \<times> host" where
  "load_image e filepath h =
     (if \<not> path_exists e filepath
      then (None, print_line [Txt ''Error: Image file not found: '', Txt filepath] h)
      else
        let image_name = basename filepath;
            (img, h) =
               (case find (\<lambda>i. img_name i = image_name) (images (doc h)) of
                  Some i \<Rightarrow> (i, h)
                | None \<Rightarrow> with_doc (images_load e filepath) h);
            h = print_line [Txt ''Loaded image: '', IntV (int (fst (img_size img))), Txt ''x'',
                            IntV (int (snd (img_size img))), Txt '' pixels''] h
        in (Some img, h))"


text \<open>The loop \<^verbatim>\<open>for _ in range(subdivision_level): bpy.ops.mesh.subdivide()\<close>, by the
  number of passes left.\<close>

fun subdivide_loop :: "nat \<Rightarrow> document \<Rightarrow> document" where
  "subdivide_loop 0 d = d"
| "subdivide_loop (Suc n) d = subdivide_loop n (mesh_subdivide d)"

definition create_heightmap_mesh :: "env \<Rightarrow> image \<Rightarrow> int \<Rightarrow> real \<Rightarrow> real \<Rightarrow> host \<Rightarrow> nat \<times> host" where
  "create_heightmap_mesh e img subdivision_level displacement_strength plane_size h =
     (let (plane, h) = with_doc (primitive_plane_add plane_size (0, 0, 0)) h;
          h = on_doc (upd_object plane (\<lambda>x. x\<lparr>ob_name := ''Mandelbrot_Heightmap''\<rparr>)) h;

          (subsurf, h) = with_doc (modifiers_new e plane ''Subdivision'' ''SUBSURF'') h;
          h = on_doc (upd_modifier plane subsurf (on_subsurf (\<lambda>s. s\<lparr>ss_levels := 2\<rparr>))) h;
          h = on_doc (upd_modifier plane subsurf (on_subsurf (\<lambda>s. s\<lparr>ss_render_levels := 3\<rparr>))) h;

          h = on_doc (mode_set ''EDIT'') h;
          h = on_doc mesh_select_all h;
          h = on_doc (subdivide_loop (nat subdivision_level)) h;
          h = on_doc (mode_set ''OBJECT'') h;

          h = print_line [Txt ''Created plane with '', IntV (int (len_data_vertices (doc h) plane)),
                          Txt '' vertices''] h;

          (material, h) = with_doc (materials_new ''Mandelbrot_Material'') h;
          h = on_doc (upd_material material set_use_nodes) h;
          h = on_doc (data_materials_append plane material) h;

          h = on_doc (nodes_clear material) h;

          (node_output, h) = with_doc (nodes_new material ''ShaderNodeOutputMaterial'') h;
          h = on_doc (upd_node material node_output (\<lambda>n. n\<lparr>nd_location := (400, 0)\<rparr>)) h;

          (node_bsdf, h) = with_doc (nodes_new material ''ShaderNodeBsdfPrincipled'') h;
          h = on_doc (upd_node material node_bsdf (\<lambda>n. n\<lparr>nd_location := (0, 0)\<rparr>)) h;
          h = on_doc (upd_node material node_bsdf (set_input ''Metallic'' 0.3)) h;
          h = on_doc (upd_node material node_bsdf (set_input ''Roughness'' 0.4)) h;

          (node_image, h) = with_doc (nodes_new material ''ShaderNodeTexImage'') h;
          h = on_doc (upd_node material node_image (\<lambda>n. n\<lparr>nd_location := (-400, 0)\<rparr>)) h;
          h = on_doc (upd_node material node_image (\<lambda>n. n\<lparr>nd_image := Some img\<rparr>)) h;

          (node_colorramp, h) = with_doc (nodes_new material ''ShaderNodeValToRGB'') h;
          h = on_doc (upd_node material node_colorramp (\<lambda>n. n\<lparr>nd_location := (-200, -300)\<rparr>)) h;

          h = on_doc (links_new material (node_image, ''Color'') (node_bsdf, ''Base Color'')) h;
          h = on_doc (links_new material (node_bsdf, ''BSDF'') (node_output, ''Surface'')) h;

          (displace, h) = with_doc (modifiers_new e plane ''Displace'' ''DISPLACE'') h;
          h = on_doc (upd_modifier plane displace
                        (on_displace (\<lambda>m. m\<lparr>dp_strength := displacement_strength\<rparr>))) h;
          h = on_doc (upd_modifier plane displace (on_displace (\<lambda>m. m\<lparr>dp_mid_level := 0.0\<rparr>))) h;

          (texture, h) = with_doc (textures_new ''Mandelbrot_Displacement'' ''IMAGE'') h;
          h = on_doc (upd_texture texture (\<lambda>t. t\<lparr>tex_image := Some img\<rparr>)) h;
          h = on_doc (upd_modifier plane displace (on_displace (\<lambda>m. m\<lparr>dp_texture := Some texture\<rparr>))) h;

          h = on_doc (upd_modifier plane displace
                        (on_displace (\<lambda>m. m\<lparr>dp_texture_coords := ''UV''\<rparr>))) h
      in (plane, h))"

definition vsub :: "vec3 \<Rightarrow> vec3 \<Rightarrow> vec3" where
  "vsub a b = (case a of (ax, ay, az) \<Rightarrow> case b of (bx, by, bz) \<Rightarrow> (ax - bx, ay - by, az - bz))"

definition setup_camera :: "env \<Rightarrow> nat \<Rightarrow> host \<Rightarrow> nat \<times> host" where
  "setup_camera e target_object h =
     (let (camera, h) = with_doc (camera_add e (15, -15, 10)) h;
          h = on_doc (upd_object camera (\<lambda>x. x\<lparr>ob_name := ''Camera''\<rparr>)) h;

          direction = vsub (ob_location (object_at (doc h) target_object))
                           (ob_location (object_at (doc h) camera));
          h = on_doc (upd_object camera (\<lambda>x. x\<lparr>ob_rotation_euler := to_track_euler direction\<rparr>)) h;

          h = on_doc (\<lambda>d. d\<lparr>scene_camera := Some camera\<rparr>) h;

          h = on_doc (upd_object camera (on_camera (\<lambda>c. c\<lparr>lens := 50\<rparr>))) h;
          h = on_doc (upd_object camera (on_camera (\<lambda>c. c\<lparr>clip_end := 1000\<rparr>))) h
      in (camera, h))"

definition setup_lighting :: "env \<Rightarrow> host \<Rightarrow> host" where
  "setup_lighting e h =
     (let (key_light, h) = with_doc (light_add e ''SUN'' (10, -10, 15)) h;
          h = on_doc (upd_object key_light (\<lambda>x. x\<lparr>ob_name := ''Key_Light''\<rparr>)) h;
          h = on_doc (upd_object key_light (on_light (\<lambda>l. l\<lparr>energy := 3.0\<rparr>))) h;
          h = on_doc (upd_object key_light (\<lambda>x. x\<lparr>ob_rotation_euler := (0.8, 0, 0.7)\<rparr>)) h;

          (fill_light, h) = with_doc (light_add e ''SUN'' (-5, 5, 8)) h;
          h = on_doc (upd_object fill_light (\<lambda>x. x\<lparr>ob_name := ''Fill_Light''\<rparr>)) h;
          h = on_doc (upd_object fill_light (on_light (\<lambda>l. l\<lparr>energy := 1.5\<rparr>))) h;
          h = on_doc (upd_object fill_light (\<lambda>x. x\<lparr>ob_rotation_euler := (1.0, 0, -0.5)\<rparr>)) h;

          (rim_light, h) = with_doc (light_add e ''SUN'' (-10, 10, 5)) h;
          h = on_doc (upd_object rim_light (\<lambda>x. x\<lparr>ob_name := ''Rim_Light''\<rparr>)) h;
          h = on_doc (upd_object rim_light (on_light (\<lambda>l. l\<lparr>energy := 2.0\<rparr>))) h;
          h = on_doc (upd_object rim_light (\<lambda>x. x\<lparr>ob_rotation_euler := (1.2, 0, -2.0)\<rparr>)) h
      in h)"

text \<open>
  \<^verbatim>\<open>setup_world\<close> takes the world of the scene as it finds it. Without a world the
  first write is to \<^verbatim>\<open>None\<close> and raises; with a world whose tree has no node named
  \<^verbatim>\<open>Background\<close> the lookup raises, after the flag has been set.
\<close>

definition setup_world :: "env \<Rightarrow> host \<Rightarrow> outcome" where
  "setup_world e h =
     (case scene_world (doc h) of
        None \<Rightarrow> Inl (AttributeError ''use_nodes'', h)
      | Some _ \<Rightarrow>
         (let h = on_doc (on_world (world_set_use_nodes e)) h
          in case world_node ''Background'' (doc h) of
               None \<Rightarrow> Inl (KeyError ''Background'', h)
             | Some _ \<Rightarrow>
                (let h = on_doc (on_world (on_world_node ''Background''
                                   (\<lambda>b. b\<lparr>bg_color := (0.05, 0.05, 0.05, 1.0)\<rparr>))) h;
                     h = on_doc (on_world (on_world_node ''Background''
                                   (\<lambda>b. b\<lparr>bg_strength := 0.3\<rparr>))) h
                 in Inr h)))"

definition configure_render_settings :: "host \<Rightarrow> host" where
  "configure_render_settings h =
     (let h = on_doc (\<lambda>d. d\<lparr>render := (render d)\<lparr>engine := ''CYCLES''\<rparr>\<rparr>) h;
          h = on_doc (\<lambda>d. d\<lparr>cycles_samples := 128\<rparr>) h;

          h = on_doc (\<lambda>d. d\<lparr>render := (render d)\<lparr>resolution_x := 1920\<rparr>\<rparr>) h;
          h = on_doc (\<lambda>d. d\<lparr>render := (render d)\<lparr>resolution_y := 1080\<rparr>\<rparr>) h;
          h = on_doc (\<lambda>d. d\<lparr>render := (render d)\<lparr>resolution_percentage := 100\<rparr>\<rparr>) h
      in h)"

text \<open>The lines \<^verbatim>\<open>main\<close> prints once the document is saved.\<close>

definition closing_lines :: "string \<Rightarrow> nat \<Rightarrow> line list" where
  "closing_lines blend_filepath vertices =
     [banner,
      [Txt ''Scene creation complete!''],
      banner,
      [Txt ''Subdivision level: '', IntV SUBDIVISION_LEVEL],
      [Txt ''Displacement strength: '', FloatV DISPLACEMENT_STRENGTH],
      [Txt ''Plane size: '', FloatV PLANE_SIZE],
      [Txt ''Vertices: '', IntV (int vertices)],
      [Txt ''Saved to: '', Txt blend_filepath],
      [Txt []],
      [Txt ''Adjust settings at the top of the script:''],
      [Txt ''  - SUBDIVISION_LEVEL: Higher = more detail (6-10)''],
      [Txt ''  - DISPLACEMENT_STRENGTH: Height multiplier''],
      [Txt ''  - PLANE_SIZE: Base plane dimensions''],
      [Txt []],
      [Txt ''To open the scene:''],
      [Txt ''  blender '', Txt blend_filepath],
      [Txt []],
      [Txt ''Switch to 'Shading' workspace to see the result''],
      [Txt ''Press F12 to render, or use Viewport Shading (Z key)''],
      banner]"

definition main :: "env \<Rightarrow> host \<Rightarrow> outcome" where
  "main e h =
     (let h = print_line banner h;
          h = print_line [Txt ''Creating 3D Mandelbrot heightmap scene''] h;
          h = print_line banner h;

          image_path = path_join (script_dir e) IMAGE_FILENAME;

          h = print_line [Txt ''Clearing scene...''] h;
          h = clear_scene h;

          h = print_line [Txt ''Loading image: '', Txt image_path] h;
          (image_opt, h) = load_image e image_path h
      in case image_opt of
           None \<Rightarrow> Inr h
         | Some img \<Rightarrow>
            (let h = print_line [Txt ''Creating heightmap mesh...''] h;
                 (plane, h) = create_heightmap_mesh e img SUBDIVISION_LEVEL
                                DISPLACEMENT_STRENGTH PLANE_SIZE h;

                 h = print_line [Txt ''Setting up camera...''] h;
                 (camera, h) = setup_camera e plane h;

                 h = print_line [Txt ''Setting up lighting...''] h;
                 h = setup_lighting e h;

                 h = print_line [Txt ''Configuring world...''] h
             in case setup_world e h of
                  Inl x \<Rightarrow> Inl x
                | Inr h \<Rightarrow>
                   (let h = print_line [Txt ''Configuring render settings...''] h;
                        h = configure_render_settings h;

                        blend_filepath = path_join (script_dir e) ''mandelbrot_3d_scene.blend'';
                        h = print_line [Txt ''Saving scene to: '', Txt blend_filepath] h;
                        h = save_as_mainfile blend_filepath h
                    in Inr (fold print_line
                              (closing_lines blend_filepath (len_data_vertices (doc h) plane)) h))))"

section \<open>The preview renderer\<close>

definition render_preview :: "env \<Rightarrow> host \<Rightarrow> host" where
  "render_preview e h =
     (let output_path = path_join (script_dir e) OUTPUT_FILENAME;

          h = on_doc (\<lambda>d. d\<lparr>render := (render d)\<lparr>render_filepath := output_path\<rparr>\<rparr>) h;

          h = (if engine (render (doc h)) = ''CYCLES''
               then print_line [Txt ''Rendering with Cycles at '', IntV RENDER_SAMPLES, Txt '' samples...'']
                      (on_doc (\<lambda>d. d\<lparr>cycles_samples := RENDER_SAMPLES\<rparr>) h)
               else print_line [Txt ''Rendering with EEVEE...''] h);

          h = on_doc (\<lambda>d. d\<lparr>render := (render d)\<lparr>file_format := ''PNG''\<rparr>\<rparr>) h;
          h = on_doc (\<lambda>d. d\<lparr>render := (render d)\<lparr>color_mode := ''RGB''\<rparr>\<rparr>) h;

          h = print_line [Txt ''Output: '', Txt output_path] h;
          h = print_line [Txt ''Resolution: '', IntV (resolution_x (render (doc h))), Txt ''x'',
                          IntV (resolution_y (render (doc h)))] h;
          h = print_line [Txt ''Starting render...''] h;

          h = render_render True h;

          h = print_line banner h;
          h = print_line [Txt ''Render complete! Saved to: '', Txt output_path] h;
          h = print_line banner h
      in h)"

section \<open>Reading aids\<close>

text \<open>The kind of an object, by the data it carries.\<close>

definition is_mesh :: "obdata \<Rightarrow> bool" where
  "is_mesh x = (case x of MESH _ \<Rightarrow> True | _ \<Rightarrow> False)"

definition is_camera :: "obdata \<Rightarrow> bool" where
  "is_camera x = (case x of CAMERA _ \<Rightarrow> True | _ \<Rightarrow> False)"

definition is_light :: "obdata \<Rightarrow> bool" where
  "is_light x = (case x of LIGHT _ \<Rightarrow> True | _ \<Rightarrow> False)"

text \<open>The objects of a document that are of a given kind.\<close>

definition objects_with :: "(obdata \<Rightarrow> bool) \<Rightarrow> document \<Rightarrow> nat list" where
  "objects_with P d = filter (\<lambda>i. P (ob_data (object_at d i))) (object_ids d)"

text \<open>A vector scaled to length one.\<close>

definition normalized :: "vec3 \<Rightarrow> vec3" where
  "normalized v =
     (case v of (x, y, z) \<Rightarrow>
        (x / sqrt (x\<^sup>2 + y\<^sup>2 + z\<^sup>2), y / sqrt (x\<^sup>2 + y\<^sup>2 + z\<^sup>2), z / sqrt (x\<^sup>2 + y\<^sup>2 + z\<^sup>2)))"

text \<open>
  The objects \<^verbatim>\<open>clear_scene\<close> leaves in place: those out of reach of the selection
  operators, unless they go with their mesh.
\<close>

definition stays :: "document \<Rightarrow> nat \<Rightarrow> bool" where
  "stays d i \<longleftrightarrow>
     \<not> selectable (object_at d i) \<and>
     (case ob_data (object_at d i) of MESH m \<Rightarrow> m \<notin> set (mesh_ids d) | _ \<Rightarrow> True)"

text \<open>A document all of whose objects are within reach of the selection operators.\<close>

definition all_selectable :: "document \<Rightarrow> bool" where
  "all_selectable d = list_all (\<lambda>i. selectable (object_at d i)) (object_ids d)"

text \<open>A document in which the mesh of every mesh object is one of its meshes, as the host
  keeps it.\<close>

definition meshes_live :: "document \<Rightarrow> bool" where
  "meshes_live d =
     list_all (\<lambda>i. case ob_data (object_at d i) of MESH m \<Rightarrow> m \<in> set (mesh_ids d) | _ \<Rightarrow> True)
       (object_ids d)"

text \<open>
  A scene that \<^verbatim>\<open>setup_world\<close> can configure: it has a world, and the world's node tree,
  or the one the host will give it if it has none yet, has a node named \<^verbatim>\<open>Background\<close>.
\<close>

definition world_ready :: "env \<Rightarrow> document \<Rightarrow> bool" where
  "world_ready e d =
     (case scene_world d of
        None \<Rightarrow> False
      | Some w \<Rightarrow>
         (case w_node_tree w of
            None \<Rightarrow> default_background_name e = ''Background''
          | Some t \<Rightarrow> t ''Background'' \<noteq> None))"

text \<open>The five handles \<^verbatim>\<open>main\<close> gives the objects it adds to a document whose objects
  are \<open>ids\<close>.\<close>

definition added :: "nat list \<Rightarrow> nat list" where
  "added ids = (let n = fresh ids in [n, n + 1, n + 2, n + 3, n + 4])"

text \<open>A fully selected mesh with the counts of a square grid of \<open>k\<close> by \<open>k\<close> quads.\<close>

definition grid :: "nat \<Rightarrow> mesh \<Rightarrow> bool" where
  "grid k x \<longleftrightarrow>
     msh_select_all x \<and> verts x = (k + 1)\<^sup>2 \<and> edges x = 2 * k * (k + 1) \<and> faces x = k\<^sup>2"

section \<open>Example documents and two environments\<close>

text \<open>
  A document as the host opens it (one cube with its mesh and material, a world, a
  realtime engine selected); the same document with a light that is barred from
  selection, without a world, without any object, and with that light alone; an
  environment in which the image file is there, and one in which it is not. The
  properties below are instantiated on them.
\<close>

definition demo_world :: world where
  "demo_world =
     \<lparr>w_use_nodes = True,
      w_node_tree = Some [''Background'' \<mapsto> \<lparr>bg_color = (0.5, 0.5, 0.5, 1), bg_strength = 1\<rparr>]\<rparr>"

definition demo_render :: render_settings where
  "demo_render =
     \<lparr>engine = ''BLENDER_EEVEE'', render_filepath = ''/tmp/'', resolution_x = 800,
      resolution_y = 600, resolution_percentage = 50, file_format = ''JPEG'', color_mode = ''RGBA''\<rparr>"

definition demo_cube :: object where
  "demo_cube =
     \<lparr>ob_name = ''Cube'', ob_location = (0, 0, 0), ob_rotation_euler = (0, 0, 0),
      ob_select = False, ob_hide_select = False, ob_visible = True,
      ob_data = MESH 0, ob_modifiers = []\<rparr>"

definition demo_lamp :: object where
  "demo_lamp =
     \<lparr>ob_name = ''Light'', ob_location = (4, 1, 6), ob_rotation_euler = (0, 0, 0),
      ob_select = False, ob_hide_select = True, ob_visible = True,
      ob_data = LIGHT \<lparr>light_type = ''POINT'', energy = 1000\<rparr>, ob_modifiers = []\<rparr>"

definition demo_cube_mesh :: mesh where
  "demo_cube_mesh =
     \<lparr>msh_name = ''Cube'', msh_size = 2, verts = 8, edges = 12, faces = 6,
      msh_select_all = False, msh_uv_layers = [''UVMap''], msh_materials = [0]\<rparr>"

definition demo_material :: material where
  "demo_material = \<lparr>mat_name = ''Material'', use_nodes = False, nodes = [], links = []\<rparr>"

definition demo_texture :: texture where
  "demo_texture = \<lparr>tex_name = ''Texture'', tex_type = ''NONE'', tex_image = None\<rparr>"

definition demo_doc :: document where
  "demo_doc =
     \<lparr>object_ids = [0], object_at = (\<lambda>_. demo_cube),
      mesh_ids = [0], mesh_at = (\<lambda>_. demo_cube_mesh),
      material_ids = [0], material_at = (\<lambda>_. demo_material),
      texture_ids = [], texture_at = (\<lambda>_. demo_texture),
      images = [], active_object = Some 0, mode = ''OBJECT'', scene_camera = None,
      scene_world = Some demo_world, render = demo_render,
      cycles_samples = 4096, eevee_taa_render_samples = 16\<rparr>"

definition demo_host :: host where
  "demo_host = \<lparr>doc = demo_doc, stdout = [], blend_files = [], image_files = []\<rparr>"

definition demo_host_lamp :: host where
  "demo_host_lamp =
     \<lparr>doc = demo_doc\<lparr>object_ids := [0, 1], object_at := (\<lambda>_. demo_cube)(1 := demo_lamp)\<rparr>,
      stdout = [], blend_files = [], image_files = []\<rparr>"

definition demo_host_no_world :: host where
  "demo_host_no_world =
     \<lparr>doc = demo_doc\<lparr>scene_world := None\<rparr>, stdout = [], blend_files = [], image_files = []\<rparr>"

definition empty_host :: host where
  "empty_host =
     \<lparr>doc = demo_doc\<lparr>object_ids := [], mesh_ids := [], material_ids := [], active_object := None\<rparr>,
      stdout = [], blend_files = [], image_files = []\<rparr>"

definition lamp_host :: host where
  "lamp_host =
     \<lparr>doc = demo_doc\<lparr>object_ids := [1], object_at := (\<lambda>_. demo_lamp), mesh_ids := [],
                     material_ids := [], active_object := None\<rparr>,
      stdout = [], blend_files = [], image_files = []\<rparr>"

definition demo_env :: env where
  "demo_env =
     \<lparr>script_dir = ''/work'',
      path_exists = (\<lambda>p. p = ''/work/mandelbrot2d.png''),
      image_dims = (\<lambda>_. (640, 480)),
      default_subsurf = \<lparr>ss_name = [], ss_levels = 1, ss_render_levels = 2\<rparr>,
      default_displace = \<lparr>dp_name = [], dp_strength = 1, dp_mid_level = 0.5,
                          dp_texture = None, dp_texture_coords = ''LOCAL''\<rparr>,
      default_camera = \<lparr>lens = 50, clip_end = 100\<rparr>,
      default_light = \<lparr>light_type = ''POINT'', energy = 10\<rparr>,
      default_background = \<lparr>bg_color = (0.05, 0.05, 0.05, 1), bg_strength = 1\<rparr>,
      default_background_name = ''Background''\<rparr>"

definition demo_env_missing :: env where
  "demo_env_missing = demo_env\<lparr>path_exists := (\<lambda>_. False)\<rparr>"

definition demo_image :: image where
  "demo_image =
     \<lparr>img_name = ''mandelbrot2d.png'', img_filepath = ''/work/mandelbrot2d.png'',
      img_size = (640, 480)\<rparr>"

text \<open>The host opened on a saved document, as the preview renderer is run.\<close>

definition opened :: "document \<Rightarrow> host" where
  "opened d = \<lparr>doc = d, stdout = [], blend_files = [], image_files = []\<rparr>"

section \<open>What the script functions compute\<close>

subsection \<open>Clearing the scene\<close>

text \<open>Removing the members of a collection one by one empties it.\<close>

lemma fold_remove1_prefix: "fold remove1 xs (xs @ zs) = zs"
  by (induction xs) simp_all

lemma fold_remove1_self: "fold remove1 xs xs = []"
  using fold_remove1_prefix [of xs "[]"] by simp

lemma keep_live_twice:
  "set ids' \<subseteq> set ids \<Longrightarrow> keep_live ids' (keep_live ids r) = keep_live ids' r"
  by (auto simp add: keep_live_def split: option.splits)

lemma keep_live_filter:
  "keep_live (filter (\<lambda>x. Q x \<and> P x) ids) (keep_live (filter Q ids) r) =
   keep_live (filter (\<lambda>x. Q x \<and> P x) ids) r"
  by (rule keep_live_twice) auto

lemma keep_live_Nil: "keep_live [] r = None"
  by (simp add: keep_live_def split: option.splits)

text \<open>Removing the meshes one by one also removes every object on one of them.\<close>

lemma fold_meshes_remove:
  "fold meshes_remove ms d =
     (if ms = [] then d
      else d\<lparr>mesh_ids := fold remove1 ms (mesh_ids d),
             object_ids := filter (\<lambda>i. \<forall>m \<in> set ms. ob_data (object_at d i) \<noteq> MESH m) (object_ids d),
             active_object :=
               keep_live (filter (\<lambda>i. \<forall>m \<in> set ms. ob_data (object_at d i) \<noteq> MESH m) (object_ids d))
                 (active_object d),
             scene_camera :=
               keep_live (filter (\<lambda>i. \<forall>m \<in> set ms. ob_data (object_at d i) \<noteq> MESH m) (object_ids d))
                 (scene_camera d)\<rparr>)"
proof (induction ms arbitrary: d)
  case Nil
  show ?case by simp
next
  case (Cons m ms)
  show ?case
    apply (simp only: fold_Cons comp_apply Cons.IH)
    apply (simp add: meshes_remove_def Let_def keep_live_filter)
    done
qed

lemma fold_materials_remove:
  "fold materials_remove ms d = d\<lparr>material_ids := fold remove1 ms (material_ids d)\<rparr>"
  by (induction ms arbitrary: d) (simp_all add: materials_remove_def)

text \<open>Selecting all and deleting removes the objects within reach, and only those.\<close>

lemma select_all_delete:
  "object_delete (object_select_all d) =
     (object_select_all d)
       \<lparr>object_ids := filter (\<lambda>i. \<not> selectable (object_at d i)) (object_ids d),
        active_object :=
          keep_live (filter (\<lambda>i. \<not> selectable (object_at d i)) (object_ids d)) (active_object d),
        scene_camera :=
          keep_live (filter (\<lambda>i. \<not> selectable (object_at d i)) (object_ids d)) (scene_camera d)\<rparr>"
proof -
  have s: "filter (\<lambda>i. \<not> (ob_select (object_at (object_select_all d) i) \<and>
                            selectable (object_at (object_select_all d) i)))
             (object_ids (object_select_all d)) =
           filter (\<lambda>i. \<not> selectable (object_at d i)) (object_ids d)"
    by (auto simp add: object_select_all_def selectable_def intro!: filter_cong)
  show ?thesis
    unfolding object_delete_def Let_def s
    by (simp add: object_select_all_def)
qed

lemma stays_filter:
  "filter (\<lambda>i. \<forall>m \<in> set (mesh_ids d). ob_data (object_at d i) \<noteq> MESH m)
     (filter (\<lambda>i. \<not> selectable (object_at d i)) (object_ids d)) =
   filter (stays d) (object_ids d)"
  unfolding filter_filter
  by (rule filter_cong) (auto simp add: stays_def split: obdata.splits)

lemma stays_filter_Nil:
  "mesh_ids d = [] \<Longrightarrow>
   filter (\<lambda>i. \<not> selectable (object_at d i)) (object_ids d) = filter (stays d) (object_ids d)"
  by (rule filter_cong) (auto simp add: stays_def split: obdata.splits)

text \<open>
  After \<^verbatim>\<open>clear_scene\<close> the objects left are those that stay, the scene's references
  to the others are gone, and so is every mesh and material.
\<close>

lemma clear_scene_eq:
  "clear_scene h =
     h\<lparr>doc := (object_select_all (doc h))
          \<lparr>object_ids := filter (stays (doc h)) (object_ids (doc h)),
           active_object := keep_live (filter (stays (doc h)) (object_ids (doc h))) (active_object (doc h)),
           scene_camera := keep_live (filter (stays (doc h)) (object_ids (doc h))) (scene_camera (doc h)),
           mesh_ids := [], material_ids := []\<rparr>\<rparr>"
proof -
  define d where "d = doc h"
  define U where "U = filter (\<lambda>i. \<not> selectable (object_at d i)) (object_ids d)"
  define d2 where "d2 = (object_select_all d)
       \<lparr>object_ids := U, active_object := keep_live U (active_object d),
        scene_camera := keep_live U (scene_camera d)\<rparr>"
  have f: "mesh_ids d2 = mesh_ids d" "object_ids d2 = U" "material_ids d2 = material_ids d"
    "active_object d2 = keep_live U (active_object d)"
    "scene_camera d2 = keep_live U (scene_camera d)"
    "\<And>i. ob_data (object_at d2 i) = ob_data (object_at d i)"
    by (simp_all add: d2_def object_select_all_def)
  have sub: "set (filter (stays d) (object_ids d)) \<subseteq> set U"
    by (auto simp add: U_def stays_def)
  have 3: "fold meshes_remove (mesh_ids d2) d2 =
           d2\<lparr>mesh_ids := [], object_ids := filter (stays d) (object_ids d),
              active_object := keep_live (filter (stays d) (object_ids d)) (active_object d),
              scene_camera := keep_live (filter (stays d) (object_ids d)) (scene_camera d)\<rparr>"
  proof (cases "mesh_ids d = []")
    case True
    then have u: "U = filter (stays d) (object_ids d)"
      unfolding U_def by (rule stays_filter_Nil)
    have "fold meshes_remove (mesh_ids d2) d2 = d2"
      by (simp add: f True)
    moreover have "d2 = d2\<lparr>mesh_ids := [], object_ids := filter (stays d) (object_ids d),
              active_object := keep_live (filter (stays d) (object_ids d)) (active_object d),
              scene_camera := keep_live (filter (stays d) (object_ids d)) (scene_camera d)\<rparr>"
      using f True by (simp add: u [symmetric])
    ultimately show ?thesis by simp
  next
    case False
    have "filter (\<lambda>i. \<forall>m \<in> set (mesh_ids d). ob_data (object_at d i) \<noteq> MESH m) U =
          filter (stays d) (object_ids d)"
      unfolding U_def by (rule stays_filter)
    then show ?thesis
      by (simp add: fold_meshes_remove f False fold_remove1_self keep_live_twice [OF sub])
  qed
  have "clear_scene h = h\<lparr>doc := (fold meshes_remove (mesh_ids d2) d2)\<lparr>material_ids := []\<rparr>\<rparr>"
    by (simp add: clear_scene_def on_doc_def Let_def select_all_delete fold_materials_remove
        fold_remove1_self d2_def U_def d_def)
  then show ?thesis
    unfolding 3 by (simp add: d2_def d_def)
qed

lemma clear_scene_facts:
  "object_ids (doc (clear_scene h)) = filter (stays (doc h)) (object_ids (doc h))"
  "mesh_ids (doc (clear_scene h)) = []"
  "material_ids (doc (clear_scene h)) = []"
  "active_object (doc (clear_scene h)) =
     keep_live (filter (stays (doc h)) (object_ids (doc h))) (active_object (doc h))"
  "scene_camera (doc (clear_scene h)) =
     keep_live (filter (stays (doc h)) (object_ids (doc h))) (scene_camera (doc h))"
  "texture_ids (doc (clear_scene h)) = texture_ids (doc h)"
  "texture_at (doc (clear_scene h)) = texture_at (doc h)"
  "images (doc (clear_scene h)) = images (doc h)"
  "scene_world (doc (clear_scene h)) = scene_world (doc h)"
  "render (doc (clear_scene h)) = render (doc h)"
  "cycles_samples (doc (clear_scene h)) = cycles_samples (doc h)"
  "eevee_taa_render_samples (doc (clear_scene h)) = eevee_taa_render_samples (doc h)"
  "stdout (clear_scene h) = stdout h"
  "blend_files (clear_scene h) = blend_files h"
  "image_files (clear_scene h) = image_files h"
  by (simp_all add: clear_scene_eq object_select_all_def)

text \<open>An object that stays is left as it was.\<close>

lemma clear_scene_object_at:
  "\<not> selectable (object_at (doc h) i) \<Longrightarrow> object_at (doc (clear_scene h)) i = object_at (doc h) i"
  by (simp add: clear_scene_eq object_select_all_def)

lemma clear_scene_object_kind:
  "ob_data (object_at (doc (clear_scene h)) i) = ob_data (object_at (doc h) i)"
  "selectable (object_at (doc (clear_scene h)) i) = selectable (object_at (doc h) i)"
  "ob_name (object_at (doc (clear_scene h)) i) = ob_name (object_at (doc h) i)"
  by (simp_all add: clear_scene_eq object_select_all_def selectable_def)

text \<open>What \<^verbatim>\<open>clear_scene\<close> does to the document does not depend on the rest of the
  host.\<close>

lemma clear_scene_fields:
  "clear_scene \<lparr>doc = d, stdout = so, blend_files = bf, image_files = imf\<rparr> =
     \<lparr>doc = doc (clear_scene (opened d)), stdout = so, blend_files = bf, image_files = imf\<rparr>"
  by (simp add: clear_scene_eq opened_def)

lemma doc_clear_scene_opened: "doc (clear_scene (opened (doc h))) = doc (clear_scene h)"
  by (simp add: clear_scene_eq opened_def)

subsection \<open>The run without the image\<close>

lemma main_missing:
  "\<not> path_exists e (path_join (script_dir e) IMAGE_FILENAME) \<Longrightarrow>
   main e h =
     Inr (print_line [Txt ''Error: Image file not found: '', Txt (path_join (script_dir e) IMAGE_FILENAME)]
       (print_line [Txt ''Loading image: '', Txt (path_join (script_dir e) IMAGE_FILENAME)]
          (clear_scene
             (print_line [Txt ''Clearing scene...'']
                (print_line banner
                   (print_line [Txt ''Creating 3D Mandelbrot heightmap scene''] (print_line banner h)))))))"
  by (simp add: main_def load_image_def Let_def)

subsection \<open>The subdivision loop\<close>

text \<open>The loop applies \<open>subdivide_once\<close> to the mesh in edit mode as many times as it
  runs; on a grid of quads each pass doubles the number of quads along a side.\<close>

lemma upd_mesh_upd_mesh: "upd_mesh m f (upd_mesh m g d) = upd_mesh m (f \<circ> g) d"
  by (simp add: upd_mesh_def)

lemma edit_mesh_upd_mesh: "edit_mesh (upd_mesh m f d) = edit_mesh d"
  by (simp add: edit_mesh_def upd_mesh_def split: option.splits)

lemma subdivide_loop_eq:
  "subdivide_loop n d =
     (case edit_mesh d of None \<Rightarrow> d | Some m \<Rightarrow> upd_mesh m (subdivide_once ^^ n) d)"
proof (induction n arbitrary: d)
  case 0
  show ?case by (simp add: upd_mesh_def split: option.splits)
next
  case (Suc n)
  show ?case
    by (simp add: Suc mesh_subdivide_def edit_mesh_upd_mesh upd_mesh_upd_mesh funpow_swap1
        comp_def split: option.splits)
qed

lemma grid_subdivide_once: "grid k x \<Longrightarrow> grid (2 * k) (subdivide_once x)"
  by (simp add: grid_def subdivide_once_def power2_eq_square algebra_simps)

lemma grid_funpow: "grid k x \<Longrightarrow> grid (2 ^ n * k) ((subdivide_once ^^ n) x)"
proof (induction n)
  case 0
  then show ?case by simp
next
  case (Suc n)
  then have "grid (2 * (2 ^ n * k)) (subdivide_once ((subdivide_once ^^ n) x))"
    by (intro grid_subdivide_once) simp
  then show ?case by (simp add: mult.assoc)
qed

lemma verts_funpow_plane:
  "msh_select_all x \<Longrightarrow> verts x = 4 \<Longrightarrow> edges x = 4 \<Longrightarrow> faces x = 1 \<Longrightarrow>
   verts ((subdivide_once ^^ n) x) = (2 ^ n + 1)\<^sup>2"
proof -
  assume "msh_select_all x" "verts x = 4" "edges x = 4" "faces x = 1"
  then have "grid 1 x" by (simp add: grid_def power2_eq_square)
  then have "grid (2 ^ n * 1) ((subdivide_once ^^ n) x)" by (rule grid_funpow)
  then show ?thesis by (simp add: grid_def)
qed

subsection \<open>Running a script function on a document\<close>

text \<open>
  A script function is run by binding its steps one after the other, each on the
  document the step before has left; a call that returns a handle is bound as a pair.
\<close>

lemma let_pair: "Let E (case_prod f) = (let r = E; x = fst r; y = snd r in f x y)"
  by (simp add: split_def)

lemma with_doc_eq: "with_doc f h = (fst (f (doc h)), h\<lparr>doc := snd (f (doc h))\<rparr>)"
  by (simp add: with_doc_def split_def Let_def)

lemmas host_call_defs =
  on_doc_def with_doc_eq print_line_def
  primitive_plane_add_def camera_add_def light_add_def modifiers_new_def upd_modifier_def
  upd_object_def upd_mesh_def upd_material_def upd_texture_def mode_set_def edit_mesh_def
  mesh_select_all_def materials_new_def set_use_nodes_def data_materials_append_def
  nodes_clear_def nodes_new_def upd_node_def links_new_def textures_new_def new_node_def
  set_input_def len_data_vertices_def save_as_mainfile_def
  on_world_def world_set_use_nodes_def world_node_def on_world_node_def

text \<open>The result of \<^verbatim>\<open>create_heightmap_mesh\<close>, field by field.\<close>

lemma create_heightmap_mesh_eq:
  "create_heightmap_mesh e img n s p h =
     (let d = doc h;
          plane = fresh (object_ids d);
          m = fresh (mesh_ids d);
          mat = fresh (material_ids d);
          tex = fresh (texture_ids d);
          msh = (subdivide_once ^^ nat n)
                  \<lparr>msh_name = ''Plane'', msh_size = p, verts = 4, edges = 4, faces = 1,
                   msh_select_all = True, msh_uv_layers = [''UVMap''], msh_materials = []\<rparr>
      in (plane,
          h\<lparr>doc := d
                \<lparr>object_ids := object_ids d @ [plane],
                 object_at := (object_at d)
                   (plane :=
                      \<lparr>ob_name = ''Mandelbrot_Heightmap'', ob_location = (0, 0, 0),
                       ob_rotation_euler = (0, 0, 0), ob_select = True,
                       ob_hide_select = False, ob_visible = True, ob_data = MESH m,
                       ob_modifiers =
                         [SUBSURF ((default_subsurf e)
                            \<lparr>ss_name := ''Subdivision'', ss_levels := 2, ss_render_levels := 3\<rparr>),
                          DISPLACE ((default_displace e)
                            \<lparr>dp_name := ''Displace'', dp_strength := s, dp_mid_level := 0,
                             dp_texture := Some tex, dp_texture_coords := ''UV''\<rparr>)]\<rparr>),
                 mesh_ids := mesh_ids d @ [m],
                 mesh_at := (mesh_at d)(m := msh\<lparr>msh_materials := msh_materials msh @ [mat]\<rparr>),
                 material_ids := material_ids d @ [mat],
                 material_at := (material_at d)
                   (mat :=
                      \<lparr>mat_name = ''Mandelbrot_Material'', use_nodes = True,
                       nodes =
                         [\<lparr>nd_type = ''ShaderNodeOutputMaterial'', nd_location = (400, 0),
                           nd_image = None, nd_inputs = []\<rparr>,
                          \<lparr>nd_type = ''ShaderNodeBsdfPrincipled'', nd_location = (0, 0),
                           nd_image = None,
                           nd_inputs = [(''Metallic'', 0.3), (''Roughness'', 0.4)]\<rparr>,
                          \<lparr>nd_type = ''ShaderNodeTexImage'', nd_location = (- 400, 0),
                           nd_image = Some img, nd_inputs = []\<rparr>,
                          \<lparr>nd_type = ''ShaderNodeValToRGB'', nd_location = (- 200, - 300),
                           nd_image = None, nd_inputs = []\<rparr>],
                       links =
                         [\<lparr>from_node = 2, from_socket = ''Color'',
                           to_node = 1, to_socket = ''Base Color''\<rparr>,
                          \<lparr>from_node = 1, from_socket = ''BSDF'',
                           to_node = 0, to_socket = ''Surface''\<rparr>]\<rparr>),
                 texture_ids := texture_ids d @ [tex],
                 texture_at := (texture_at d)
                   (tex := \<lparr>tex_name = ''Mandelbrot_Displacement'', tex_type = ''IMAGE'',
                            tex_image = Some img\<rparr>),
                 active_object := Some plane,
                 mode := ''OBJECT''\<rparr>,
             stdout := stdout h @
                [[Txt ''Created plane with '', IntV (int (verts msh)), Txt '' vertices'']]\<rparr>))"
proof (cases h)
  case (fields d so bf imf)
  show ?thesis
  proof (cases d)
    case (fields a1 a2 a3 a4 a5 a6 a7 a8 a9 a10 a11 a12 a13 a14 a15 a16)
    show ?thesis
      unfolding create_heightmap_mesh_def \<open>h = _\<close> \<open>d = _\<close>
      apply (simp only: let_pair)
      apply (simp add: Let_def host_call_defs subdivide_loop_eq numeral_2_eq_2 cong: let_weak_cong)
      done
  qed
qed

subsection \<open>The run with the image\<close>

text \<open>With the file there, \<^verbatim>\<open>load_image\<close> returns an image: the one of that name already
  loaded, or a new one.\<close>

lemma load_image_present_all:
  assumes "path_exists e p"
  shows "\<exists>img ims. \<forall>h. images (doc h) = xs \<longrightarrow> load_image e p h =
           (Some img,
            print_line [Txt ''Loaded image: '', IntV (int (fst (img_size img))), Txt ''x'',
                        IntV (int (snd (img_size img))), Txt '' pixels'']
              (on_doc (\<lambda>d. d\<lparr>images := ims\<rparr>) h))"
proof (cases "find (\<lambda>i. img_name i = basename p) xs")
  case None
  define img where "img = \<lparr>img_name = basename p, img_filepath = p, img_size = image_dims e p\<rparr>"
  from None assms have "\<forall>h. images (doc h) = xs \<longrightarrow> load_image e p h =
           (Some img,
            print_line [Txt ''Loaded image: '', IntV (int (fst (img_size img))), Txt ''x'',
                        IntV (int (snd (img_size img))), Txt '' pixels'']
              (on_doc (\<lambda>d. d\<lparr>images := xs @ [img]\<rparr>) h))"
    by (simp add: load_image_def with_doc_def images_load_def on_doc_def Let_def img_def)
  then show ?thesis by blast
next
  case (Some i)
  with assms have "\<forall>h. images (doc h) = xs \<longrightarrow> load_image e p h =
           (Some i,
            print_line [Txt ''Loaded image: '', IntV (int (fst (img_size i))), Txt ''x'',
                        IntV (int (snd (img_size i))), Txt '' pixels'']
              (on_doc (\<lambda>d. d\<lparr>images := xs\<rparr>) h))"
    by (auto simp add: load_image_def on_doc_def Let_def)
  then show ?thesis by blast
qed

lemmas script_defs =
  main_def create_heightmap_mesh_def setup_camera_def setup_lighting_def setup_world_def
  configure_render_settings_def

lemma subdivide_funpow_materials: "msh_materials ((subdivide_once ^^ n) x) = msh_materials x"
  by (induction n) (simp_all add: subdivide_once_def)

text \<open>Handles are given out in increasing order.\<close>

lemma fresh_append: "fresh (xs @ ys) = max (fresh xs) (fresh ys)"
  by (induction xs) simp_all

text \<open>
  What \<^verbatim>\<open>main\<close> leaves behind when the image is there. The five objects are added to
  those the clear step has left, whatever the world; whether the run reaches its end
  depends on the world alone.
\<close>

lemma main_present:
  assumes "path_exists e (path_join (script_dir e) IMAGE_FILENAME)"
  shows "let r = main e h; h' = ended r; d' = doc h'; dc = doc (clear_scene h);
             n = fresh (object_ids dc); tex = fresh (texture_ids (doc h));
             blend_filepath = path_join (script_dir e) ''mandelbrot_3d_scene.blend'' in
           returned r = world_ready e (doc h) \<and>
           blend_files h' =
             (if world_ready e (doc h) then blend_files h @ [(blend_filepath, d')] else blend_files h) \<and>
           image_files h' = image_files h \<and>
           (scene_world (doc h) = None \<longrightarrow> r = Inl (AttributeError ''use_nodes'', h')) \<and>
           object_ids d' = object_ids dc @ [n, n + 1, n + 2, n + 3, n + 4] \<and>
           (\<forall>i. i < n \<longrightarrow> object_at d' i = object_at dc i) \<and>
           map (\<lambda>i. ob_data (object_at d' i)) [n, n + 1, n + 2, n + 3, n + 4] =
             [MESH 0,
              CAMERA ((default_camera e)\<lparr>lens := 50, clip_end := 1000\<rparr>),
              LIGHT ((default_light e)\<lparr>light_type := ''SUN'', energy := 3.0\<rparr>),
              LIGHT ((default_light e)\<lparr>light_type := ''SUN'', energy := 1.5\<rparr>),
              LIGHT ((default_light e)\<lparr>light_type := ''SUN'', energy := 2.0\<rparr>)] \<and>
           map (\<lambda>i. ob_name (object_at d' i)) [n, n + 1, n + 2, n + 3, n + 4] =
             [''Mandelbrot_Heightmap'', ''Camera'', ''Key_Light'', ''Fill_Light'', ''Rim_Light''] \<and>
           map (\<lambda>i. selectable (object_at d' i)) [n, n + 1, n + 2, n + 3, n + 4] =
             [True, True, True, True, True] \<and>
           mesh_ids d' = [0] \<and> material_ids d' = [0] \<and>
           ob_data (object_at d' n) = MESH 0 \<and>
           msh_materials (mesh_at d' 0) = [0] \<and>
           verts (mesh_at d' 0) = (2 ^ nat SUBDIVISION_LEVEL + 1)\<^sup>2 \<and>
           ob_modifiers (object_at d' n) =
             [SUBSURF ((default_subsurf e)
                \<lparr>ss_name := ''Subdivision'', ss_levels := 2, ss_render_levels := 3\<rparr>),
              DISPLACE ((default_displace e)
                \<lparr>dp_name := ''Displace'', dp_strength := DISPLACEMENT_STRENGTH, dp_mid_level := 0,
                 dp_texture := Some tex, dp_texture_coords := ''UV''\<rparr>)] \<and>
           tex_image (texture_at d' tex) \<noteq> None \<and>
           nd_image (nodes (material_at d' 0) ! 2) = tex_image (texture_at d' tex) \<and>
           nd_type (nodes (material_at d' 0) ! 2) = ''ShaderNodeTexImage'' \<and>
           ob_location (object_at d' (n + 1)) = (15, -15, 10) \<and>
           ob_rotation_euler (object_at d' (n + 1)) = to_track_euler (-15, 15, -10) \<and>
           scene_camera d' = Some (n + 1) \<and>
           (world_ready e (doc h) \<longrightarrow>
              [Txt ''Scene creation complete!''] \<in> set (stdout h') \<and>
              map_option w_use_nodes (scene_world d') = Some True \<and>
              map_option bg_color (world_node ''Background'' d') = Some (0.05, 0.05, 0.05, 1.0) \<and>
              map_option bg_strength (world_node ''Background'' d') = Some 0.3 \<and>
              render d' = (render (doc h))
                \<lparr>engine := ''CYCLES'', resolution_x := 1920, resolution_y := 1080,
                 resolution_percentage := 100\<rparr> \<and>
              cycles_samples d' = 128) \<and>
           (\<not> world_ready e (doc h) \<longrightarrow>
              render d' = render (doc h) \<and> cycles_samples d' = cycles_samples (doc h))"
proof (cases h)
  case (fields d so bf imf)
  obtain c1 c2 c3 c4 c5 c6 c7 c8 c9 c10 c11 c12 c13 c14 c15 c16 where
    c: "doc (clear_scene (opened d)) =
        \<lparr>object_ids = c1, object_at = c2, mesh_ids = c3, mesh_at = c4, material_ids = c5,
         material_at = c6, texture_ids = c7, texture_at = c8, images = c9, active_object = c10,
         mode = c11, scene_camera = c12, scene_world = c13, render = c14, cycles_samples = c15,
         eevee_taa_render_samples = c16\<rparr>"
    by (cases "doc (clear_scene (opened d))") blast
  have f: "c3 = []" "c5 = []" "texture_ids d = c7" "images d = c9" "scene_world d = c13"
    "render d = c14" "cycles_samples d = c15"
    using clear_scene_facts [of "opened d"] unfolding c by (simp_all add: opened_def)
  from load_image_present_all [OF assms, of c9] obtain img ims where
    L: "\<And>h. images (doc h) = c9 \<Longrightarrow> load_image e (path_join (script_dir e) IMAGE_FILENAME) h =
         (Some img,
          print_line [Txt ''Loaded image: '', IntV (int (fst (img_size img))), Txt ''x'',
                      IntV (int (snd (img_size img))), Txt '' pixels'']
            (on_doc (\<lambda>d. d\<lparr>images := ims\<rparr>) h))"
    by blast
  have V: "verts ((subdivide_once ^^ n) \<lparr>msh_name = ''Plane'', msh_size = PLANE_SIZE,
                       verts = 4, edges = 4, faces = Suc 0,
                       msh_select_all = True, msh_uv_layers = [''UVMap''],
                       msh_materials = []\<rparr>) = (2 ^ n + 1)\<^sup>2" for n
    by (rule verts_funpow_plane) simp_all
  note run = Let_def L V f c clear_scene_fields subdivide_funpow_materials host_call_defs
    subdivide_loop_eq numeral_2_eq_2 fresh_append max_def returned_def ended_def selectable_def
    vsub_def closing_lines_def world_ready_def
  consider (no_world) "c13 = None"
    | (no_tree) u where "c13 = Some \<lparr>w_use_nodes = u, w_node_tree = None\<rparr>"
        "default_background_name e = ''Background''"
    | (other_tree) u where "c13 = Some \<lparr>w_use_nodes = u, w_node_tree = None\<rparr>"
        "default_background_name e \<noteq> ''Background''"
    | (no_node) u tr where "c13 = Some \<lparr>w_use_nodes = u, w_node_tree = Some tr\<rparr>"
        "tr ''Background'' = None"
    | (node) u tr b where "c13 = Some \<lparr>w_use_nodes = u, w_node_tree = Some tr\<rparr>"
        "tr ''Background'' = Some b"
  proof (cases c13)
    case None
    then show ?thesis by (rule no_world)
  next
    case (Some w)
    obtain u t where w: "w = \<lparr>w_use_nodes = u, w_node_tree = t\<rparr>"
      by (cases w) simp
    show ?thesis
    proof (cases t)
      case None
      show ?thesis
      proof (cases "default_background_name e = ''Background''")
        case True
        with \<open>c13 = Some w\<close> w None show ?thesis by (intro no_tree [of u]) simp_all
      next
        case False
        with \<open>c13 = Some w\<close> w None show ?thesis by (intro other_tree [of u]) simp_all
      qed
    next
      case t: (Some tr)
      show ?thesis
      proof (cases "tr ''Background''")
        case None
        with Some w t show ?thesis by (intro no_node [of u tr]) simp_all
      next
        case (Some b)
        with \<open>c13 = Some w\<close> w t show ?thesis by (intro node [of u tr b]) simp_all
      qed
    qed
  qed
  then show ?thesis
  proof cases
    case no_world
    show ?thesis
      unfolding script_defs \<open>h = _\<close>
      apply (simp only: let_pair)
      apply (simp add: run no_world cong: let_weak_cong)
      done
  next
    case no_tree
    show ?thesis
      unfolding script_defs \<open>h = _\<close>
      apply (simp only: let_pair)
      apply (simp add: run no_tree cong: let_weak_cong)
      done
  next
    case other_tree
    show ?thesis
      unfolding script_defs \<open>h = _\<close>
      apply (simp only: let_pair)
      apply (simp add: run other_tree other_tree(2) [THEN not_sym] cong: let_weak_cong)
      done
  next
    case no_node
    show ?thesis
      unfolding script_defs \<open>h = _\<close>
      apply (simp only: let_pair)
      apply (simp add: run no_node cong: let_weak_cong)
      done
  next
    case node
    show ?thesis
      unfolding script_defs \<open>h = _\<close>
      apply (simp only: let_pair)
      apply (simp add: run node cong: let_weak_cong)
      done
  qed
qed

subsection \<open>The example document\<close>

lemma demo_present: "path_exists demo_env (path_join (script_dir demo_env) IMAGE_FILENAME)"
  by (simp add: demo_env_def path_join_def IMAGE_FILENAME_def)

subsection \<open>Projections\<close>

lemma doc_print_line: "doc (print_line l h) = doc h"
  by (simp add: print_line_def)

lemma clear_scene_print_line: "doc (clear_scene (print_line l h)) = doc (clear_scene h)"
  by (simp add: clear_scene_eq print_line_def)


lemma demo_host_facts:
  "object_ids (doc demo_host) = [0]"
  "mesh_ids (doc demo_host) = [0]"
  "material_ids (doc demo_host) = [0]"
  "texture_ids (doc demo_host) = []"
  "blend_files demo_host = []"
  "image_files demo_host = []"
  "stdout demo_host = []"
  "objects_with is_mesh (doc demo_host) = [0]"
  "objects_with is_camera (doc demo_host) = []"
  "objects_with is_light (doc demo_host) = []"
  "all_selectable (doc demo_host)"
  "meshes_live (doc demo_host)"
  "world_ready demo_env (doc demo_host)"
  "object_ids (doc (clear_scene demo_host)) = []"
  "\<not> stays (doc demo_host) 0"
  by (simp_all add: demo_host_def demo_doc_def demo_cube_def objects_with_def is_mesh_def
      is_camera_def is_light_def all_selectable_def meshes_live_def selectable_def
      world_ready_def demo_world_def demo_env_def clear_scene_facts stays_def)

lemma demo_host_lamp_facts:
  "object_ids (doc demo_host_lamp) = [0, 1]"
  "objects_with is_light (doc demo_host_lamp) = [1]"
  "\<not> all_selectable (doc demo_host_lamp)"
  "meshes_live (doc demo_host_lamp)"
  "world_ready demo_env (doc demo_host_lamp)"
  "blend_files demo_host_lamp = []"
  "object_ids (doc (clear_scene demo_host_lamp)) = [1]"
  "objects_with is_mesh (doc (clear_scene demo_host_lamp)) = []"
  "objects_with is_camera (doc (clear_scene demo_host_lamp)) = []"
  "objects_with is_light (doc (clear_scene demo_host_lamp)) = [1]"
  "ob_name (object_at (doc (clear_scene demo_host_lamp)) (Suc 0)) = ''Light''"
  by (simp_all add: demo_host_lamp_def demo_doc_def demo_cube_def demo_lamp_def objects_with_def
      is_mesh_def is_camera_def is_light_def all_selectable_def meshes_live_def selectable_def
      world_ready_def demo_world_def demo_env_def clear_scene_facts clear_scene_object_kind stays_def)

lemma other_host_facts:
  "object_ids (doc empty_host) = []"
  "all_selectable (doc empty_host)"
  "world_ready demo_env (doc empty_host)"
  "object_ids (doc (clear_scene empty_host)) = []"
  "\<not> world_ready e (doc demo_host_no_world)"
  "scene_world (doc demo_host_no_world) = None"
  "blend_files demo_host_no_world = []"
  "object_ids (doc lamp_host) = [1]"
  "mesh_ids (doc lamp_host) = []"
  "material_ids (doc lamp_host) = []"
  by (simp_all add: empty_host_def demo_host_no_world_def lamp_host_def demo_doc_def
      all_selectable_def world_ready_def demo_world_def demo_env_def clear_scene_facts)

lemma demo_paths:
  "path_join (script_dir demo_env) IMAGE_FILENAME = ''/work/mandelbrot2d.png''"
  "path_join (script_dir demo_env) ''mandelbrot_3d_scene.blend'' = ''/work/mandelbrot_3d_scene.blend''"
  "path_join (script_dir demo_env) OUTPUT_FILENAME = ''/work/mandelbrot_3d_preview.png''"
  "path_join (script_dir demo_env_missing) IMAGE_FILENAME = ''/work/mandelbrot2d.png''"
  by (simp_all add: demo_env_missing_def demo_env_def path_join_def IMAGE_FILENAME_def
      OUTPUT_FILENAME_def)

lemma demo_exists:
  "path_exists demo_env ''/work/mandelbrot2d.png''"
  "\<not> path_exists demo_env_missing ''/work/mandelbrot2d.png''"
  by (simp_all add: demo_env_missing_def demo_env_def)


subsection \<open>The preview renderer\<close>

text \<open>The result of \<^verbatim>\<open>render_preview\<close>, field by field.\<close>

lemma render_preview_eq:
  "render_preview e h =
     (let output_path = path_join (script_dir e) OUTPUT_FILENAME;
          cycles = (engine (render (doc h)) = ''CYCLES'');
          r = (render (doc h))
                \<lparr>render_filepath := output_path, file_format := ''PNG'', color_mode := ''RGB''\<rparr>
      in h\<lparr>doc := (doc h)
                \<lparr>render := r,
                 cycles_samples := (if cycles then RENDER_SAMPLES else cycles_samples (doc h))\<rparr>,
             stdout := stdout h @
                [if cycles
                 then [Txt ''Rendering with Cycles at '', IntV RENDER_SAMPLES, Txt '' samples...'']
                 else [Txt ''Rendering with EEVEE...''],
                 [Txt ''Output: '', Txt output_path],
                 [Txt ''Resolution: '', IntV (resolution_x (render (doc h))), Txt ''x'',
                  IntV (resolution_y (render (doc h)))],
                 [Txt ''Starting render...''],
                 banner,
                 [Txt ''Render complete! Saved to: '', Txt output_path],
                 banner],
             image_files := image_files h @
                [(output_path,
                  \<lparr>rr_format = ''PNG'', rr_color_mode = ''RGB'',
                   rr_width = resolution_x (render (doc h)) * resolution_percentage (render (doc h)) div 100,
                   rr_height = resolution_y (render (doc h)) * resolution_percentage (render (doc h)) div 100\<rparr>)]\<rparr>)"
proof (cases h)
  case (fields d so bf imf)
  show ?thesis
  proof (cases d)
    case (fields a1 a2 a3 a4 a5 a6 a7 a8 a9 a10 a11 a12 a13 a14 a15 a16)
    show ?thesis
      unfolding render_preview_def \<open>h = _\<close> \<open>d = _\<close>
      by (cases a14)
         (simp add: Let_def on_doc_def print_line_def render_render_def cong: let_weak_cong)
  qed
qed


subsection \<open>Displacement\<close>

lemma subdivide_funpow_uv_layers: "msh_uv_layers ((subdivide_once ^^ n) x) = msh_uv_layers x"
  by (induction n) (simp_all add: subdivide_once_def)

lemma displacement_bounds:
  "dp_mid_level m = 0 \<Longrightarrow> 0 \<le> dp_strength m \<Longrightarrow> 0 \<le> v \<Longrightarrow> v \<le> 1 \<Longrightarrow>
   0 \<le> displacement m v \<and> displacement m v \<le> displacement m 1"
  by (simp add: displacement_def mult_left_le)


subsection \<open>Handles and the camera\<close>

text \<open>The object an add operator returns is the active object right after the call.\<close>

lemma add_makes_active:
  "active_object (snd (primitive_plane_add sz l d)) = Some (fst (primitive_plane_add sz l d))"
  "active_object (snd (camera_add e l d)) = Some (fst (camera_add e l d))"
  "active_object (snd (light_add e t l d)) = Some (fst (light_add e t l d))"
  by (simp_all add: primitive_plane_add_def camera_add_def light_add_def Let_def)

text \<open>
  What \<^verbatim>\<open>setup_camera\<close> does to the document: the new camera sits at the fixed offset,
  its rotation is the tracking rotation of the vector from there to the target's
  location, and it becomes the scene's camera.
\<close>

lemma less_fresh: "i \<in> set ids \<Longrightarrow> i < fresh ids"
  by (induction ids) auto

lemma fresh_notin: "fresh ids \<notin> set ids"
  using less_fresh [of "fresh ids" ids] by auto

lemma setup_camera_aim:
  assumes "target \<in> set (object_ids (doc h))"
  shows "let r = setup_camera e target h; camera = fst r; d' = doc (snd r) in
           camera = fresh (object_ids (doc h)) \<and>
           object_ids d' = object_ids (doc h) @ [camera] \<and>
           ob_location (object_at d' camera) = (15, -15, 10) \<and>
           ob_rotation_euler (object_at d' camera) =
             to_track_euler (vsub (ob_location (object_at (doc h) target)) (15, -15, 10)) \<and>
           ob_data (object_at d' camera) = CAMERA ((default_camera e)\<lparr>lens := 50, clip_end := 1000\<rparr>) \<and>
           scene_camera d' = Some camera \<and>
           object_at d' target = object_at (doc h) target"
proof -
  from assms fresh_notin [of "object_ids (doc h)"]
  have ne: "fresh (object_ids (doc h)) \<noteq> target" "target \<noteq> fresh (object_ids (doc h))"
    by auto
  show ?thesis
    unfolding setup_camera_def
    apply (simp only: let_pair)
    apply (simp add: Let_def host_call_defs ne cong: let_weak_cong)
    done
qed

subsection \<open>The look-at rotation\<close>

lemma sqrt_sum_pos:
  fixes x y z :: real
  assumes "(x, y, z) \<noteq> (0, 0, 0)"
  shows "0 < sqrt (x\<^sup>2 + y\<^sup>2 + z\<^sup>2)"
proof -
  from assms have "x \<noteq> 0 \<or> y \<noteq> 0 \<or> z \<noteq> 0" by simp
  then have "0 < x\<^sup>2 + y\<^sup>2 + z\<^sup>2"
    by (metis add_pos_nonneg add_nonneg_pos zero_less_power2 zero_le_power2 add_nonneg_nonneg)
  then show ?thesis by simp
qed

text \<open>The tilt and the heading of a tracking rotation, by their sines and cosines.\<close>

lemma track_tilt:
  fixes x y z :: real
  assumes n: "0 < n" "n\<^sup>2 = x\<^sup>2 + y\<^sup>2 + z\<^sup>2"
  shows "cos (arccos (- z / n)) = - z / n" "sin (arccos (- z / n)) = sqrt (x\<^sup>2 + y\<^sup>2) / n"
proof -
  have "z\<^sup>2 \<le> n\<^sup>2" using n by simp
  then have "\<bar>z\<bar> \<le> n" using n(1) abs_le_square_iff [of z n] by simp
  then have b: "- 1 \<le> - z / n" "- z / n \<le> 1"
    using n(1) by (simp_all add: field_simps abs_le_iff)
  show "cos (arccos (- z / n)) = - z / n"
    using b by (rule cos_arccos)
  have "1 - (- z / n)\<^sup>2 = (n\<^sup>2 - z\<^sup>2) / n\<^sup>2"
    using n(1) by (simp add: power_divide diff_divide_distrib)
  also have "n\<^sup>2 - z\<^sup>2 = x\<^sup>2 + y\<^sup>2"
    using n(2) by simp
  finally have "1 - (- z / n)\<^sup>2 = (x\<^sup>2 + y\<^sup>2) / n\<^sup>2" .
  then have "sqrt (1 - (- z / n)\<^sup>2) = sqrt (x\<^sup>2 + y\<^sup>2) / n"
    using n(1) by (simp add: real_sqrt_divide)
  then show "sin (arccos (- z / n)) = sqrt (x\<^sup>2 + y\<^sup>2) / n"
    using b by (simp add: sin_arccos)
qed

lemma track_heading:
  fixes x y :: real
  assumes r: "0 < r" "r\<^sup>2 = x\<^sup>2 + y\<^sup>2"
  defines "c \<equiv> (if x \<le> 0 then arccos (y / r) else - arccos (y / r))"
  shows "cos c = y / r" "sin c = - x / r"
proof -
  have "y\<^sup>2 \<le> r\<^sup>2" using r by simp
  then have "\<bar>y\<bar> \<le> r" using r(1) abs_le_square_iff [of y r] by simp
  then have b: "- 1 \<le> y / r" "y / r \<le> 1"
    using r(1) by (simp_all add: field_simps abs_le_iff)
  show "cos c = y / r"
    using b by (simp add: c_def cos_arccos)
  have "1 - (y / r)\<^sup>2 = (r\<^sup>2 - y\<^sup>2) / r\<^sup>2"
    using r(1) by (simp add: power_divide diff_divide_distrib)
  also have "r\<^sup>2 - y\<^sup>2 = x\<^sup>2"
    using r(2) by simp
  finally have "1 - (y / r)\<^sup>2 = x\<^sup>2 / r\<^sup>2" .
  then have "sqrt (1 - (y / r)\<^sup>2) = \<bar>x\<bar> / r"
    using r(1) by (simp add: real_sqrt_divide)
  then have "sin (arccos (y / r)) = \<bar>x\<bar> / r"
    using b by (simp add: sin_arccos)
  then show "sin c = - x / r"
    by (simp add: c_def)
qed

lemma rotate_euler_no_roll:
  "rotate_euler (a, 0, c) (0, 0, - 1) = (- (sin a * sin c), sin a * cos c, - cos a)"
  "rotate_euler (a, 0, c) (0, 1, 0) = (- (cos a * sin c), cos a * cos c, sin a)"
  "rotate_euler (a, 0, c) (1, 0, 0) = (cos c, sin c, 0)"
  by (simp_all add: rotate_euler_def Let_def)

lemma to_track_euler_eq:
  "to_track_euler (x, y, z) =
     (if sqrt (x\<^sup>2 + y\<^sup>2 + z\<^sup>2) = 0 then 0 else arccos (- z / sqrt (x\<^sup>2 + y\<^sup>2 + z\<^sup>2)),
      0,
      if sqrt (x\<^sup>2 + y\<^sup>2) = 0 then 0
      else if x \<le> 0 then arccos (y / sqrt (x\<^sup>2 + y\<^sup>2)) else - arccos (y / sqrt (x\<^sup>2 + y\<^sup>2)))"
  by (simp add: to_track_euler_def Let_def)

text \<open>
  The tracking rotation aims the local \<open>-Z\<close> axis along the vector, keeps the local \<open>X\<close>
  axis level and does not let the local \<open>Y\<close> axis point downward.
\<close>

lemma rotate_track_aim:
  fixes x y z :: real
  assumes "(x, y, z) \<noteq> (0, 0, 0)"
  shows "rotate_euler (to_track_euler (x, y, z)) (0, 0, - 1) =
           (x / sqrt (x\<^sup>2 + y\<^sup>2 + z\<^sup>2), y / sqrt (x\<^sup>2 + y\<^sup>2 + z\<^sup>2), z / sqrt (x\<^sup>2 + y\<^sup>2 + z\<^sup>2))"
proof -
  define n where "n = sqrt (x\<^sup>2 + y\<^sup>2 + z\<^sup>2)"
  define r where "r = sqrt (x\<^sup>2 + y\<^sup>2)"
  define a where "a = arccos (- z / n)"
  define c where "c = (if r = 0 then 0 else if x \<le> 0 then arccos (y / r) else - arccos (y / r))"
  have n: "0 < n" "n\<^sup>2 = x\<^sup>2 + y\<^sup>2 + z\<^sup>2"
    using sqrt_sum_pos [OF assms] by (simp_all add: n_def)
  have r: "0 \<le> r" "r\<^sup>2 = x\<^sup>2 + y\<^sup>2"
    by (simp_all add: r_def)
  have t: "cos a = - z / n" "sin a = r / n"
    using track_tilt [OF n] by (simp_all add: a_def r_def)
  have e: "to_track_euler (x, y, z) = (a, 0, c)"
    using n(1) unfolding to_track_euler_eq n_def [symmetric] r_def [symmetric] a_def c_def
    by simp
  have "- (sin a * sin c) = x / n \<and> sin a * cos c = y / n"
  proof (cases "r = 0")
    case True
    with r(2) have "x\<^sup>2 + y\<^sup>2 = 0" by simp
    then have "x = 0" "y = 0" by (simp_all add: sum_power2_eq_zero_iff)
    with True show ?thesis by (simp add: t)
  next
    case False
    with r(1) have "0 < r" by simp
    from track_heading [OF this r(2)] False have "cos c = y / r" "sin c = - x / r"
      by (simp_all add: c_def)
    with False show ?thesis by (simp add: t)
  qed
  then show ?thesis
    unfolding e rotate_euler_no_roll n_def [symmetric] by (simp add: t)
qed

lemma rotate_track_level:
  "snd (snd (rotate_euler (to_track_euler v) (1, 0, 0))) = 0"
  by (cases v) (simp add: to_track_euler_def rotate_euler_def Let_def)

lemma rotate_track_up:
  "0 \<le> snd (snd (rotate_euler (to_track_euler v) (0, 1, 0)))"
proof -
  obtain x y z where v: "v = (x, y, z)" by (cases v) auto
  define n where "n = sqrt (x\<^sup>2 + y\<^sup>2 + z\<^sup>2)"
  have "0 \<le> sin (if n = 0 then 0 else arccos (- z / n))"
  proof (cases "n = 0")
    case True
    then show ?thesis by simp
  next
    case False
    have "0 \<le> n" by (simp add: n_def)
    with False have "0 < n" by simp
    moreover have "n\<^sup>2 = x\<^sup>2 + y\<^sup>2 + z\<^sup>2"
      by (simp add: n_def)
    ultimately have "0 < n" "n\<^sup>2 = x\<^sup>2 + y\<^sup>2 + z\<^sup>2" .
    from track_tilt(2) [OF this] \<open>0 < n\<close> False show ?thesis by simp
  qed
  then show ?thesis
    unfolding v to_track_euler_eq rotate_euler_no_roll n_def [symmetric] by simp
qed

text \<open>The tracking rotation for the vector from the camera's place to the origin.\<close>

lemma track_euler_origin:
  "to_track_euler (- 15, 15, - 10) = (arccos (10 / sqrt 550), 0, pi / 4)"
proof -
  have "sqrt 450 = sqrt (15\<^sup>2 * 2)" by simp
  also have "\<dots> = 15 * sqrt 2" by (simp only: real_sqrt_mult) simp
  finally have s: "sqrt 450 = 15 * sqrt 2" .
  have "sqrt 2 * sqrt 2 = 2" by simp
  then have "1 / sqrt 2 = sqrt 2 / 2" by (simp add: field_simps)
  then have "15 / sqrt 450 = cos (pi / 4)"
    by (simp add: s cos_45)
  then have "arccos (15 / sqrt 450) = arccos (cos (pi / 4))"
    by simp
  also have "\<dots> = pi / 4"
    by (rule arccos_cos) simp_all
  finally have a: "arccos (15 / sqrt 450) = pi / 4" .
  show ?thesis
    by (simp add: to_track_euler_def Let_def a)
qed

subsection \<open>Objects before and after a build\<close>

text \<open>The clear step sorts the objects by \<open>stays\<close>, whatever their kind.\<close>

lemma clear_objects_with:
  "objects_with P (doc (clear_scene h)) = filter (stays (doc h)) (objects_with P (doc h))"
  by (simp add: objects_with_def clear_scene_facts clear_scene_object_kind conj_commute)

lemma clear_all_selectable:
  "all_selectable (doc h) \<Longrightarrow> object_ids (doc (clear_scene h)) = []"
  by (auto simp add: all_selectable_def list_all_iff clear_scene_facts stays_def filter_empty_conv)

lemma clear_all_selectable_with:
  "all_selectable (doc h) \<Longrightarrow> objects_with P (doc (clear_scene h)) = []"
  by (simp add: objects_with_def clear_all_selectable)

lemma clear_meshes_live:
  "meshes_live (doc h) \<Longrightarrow> objects_with is_mesh (doc (clear_scene h)) = []"
  unfolding clear_objects_with
  by (auto simp add: meshes_live_def list_all_iff objects_with_def stays_def
      is_mesh_def filter_empty_conv split: obdata.splits)

lemma clear_scene_twice:
  "object_ids (doc (clear_scene (clear_scene h))) = object_ids (doc (clear_scene h))"
proof -
  have "stays (doc (clear_scene h)) i" if "stays (doc h) i" for i
    using that
    by (simp add: stays_def clear_scene_object_kind clear_scene_facts split: obdata.splits)
  then have "filter (stays (doc (clear_scene h))) (filter (stays (doc h)) (object_ids (doc h))) =
      filter (stays (doc h)) (object_ids (doc h))"
    by (simp only: filter_id_conv) simp
  then show ?thesis
    by (simp only: clear_scene_facts(1))
qed

text \<open>With the image there, the build adds its five objects to those the clear step left,
  and leaves these as they are.\<close>

lemma main_added:
  assumes "path_exists e (path_join (script_dir e) IMAGE_FILENAME)"
  shows "object_ids (doc (ended (main e h))) =
           object_ids (doc (clear_scene h)) @ added (object_ids (doc (clear_scene h)))"
    and "i \<in> set (object_ids (doc (clear_scene h))) \<Longrightarrow>
           object_at (doc (ended (main e h))) i = object_at (doc (clear_scene h)) i"
    and "map (\<lambda>i. ob_data (object_at (doc (ended (main e h))) i))
             (added (object_ids (doc (clear_scene h)))) =
           [MESH 0,
            CAMERA ((default_camera e)\<lparr>lens := 50, clip_end := 1000\<rparr>),
            LIGHT ((default_light e)\<lparr>light_type := ''SUN'', energy := 3.0\<rparr>),
            LIGHT ((default_light e)\<lparr>light_type := ''SUN'', energy := 1.5\<rparr>),
            LIGHT ((default_light e)\<lparr>light_type := ''SUN'', energy := 2.0\<rparr>)]"
    and "list_all (\<lambda>i. selectable (object_at (doc (ended (main e h))) i))
           (added (object_ids (doc (clear_scene h))))"
    and "mesh_ids (doc (ended (main e h))) = [0]"
proof -
  note m = main_present [OF assms, of h, unfolded Let_def]
  from m show "object_ids (doc (ended (main e h))) =
           object_ids (doc (clear_scene h)) @ added (object_ids (doc (clear_scene h)))"
    by (simp add: added_def Let_def)
  from m have "\<forall>i. i < fresh (object_ids (doc (clear_scene h))) \<longrightarrow>
      object_at (doc (ended (main e h))) i = object_at (doc (clear_scene h)) i"
    by blast
  then show "i \<in> set (object_ids (doc (clear_scene h))) \<Longrightarrow>
           object_at (doc (ended (main e h))) i = object_at (doc (clear_scene h)) i"
    using less_fresh [of i "object_ids (doc (clear_scene h))"] by blast
  from m show "map (\<lambda>i. ob_data (object_at (doc (ended (main e h))) i))
             (added (object_ids (doc (clear_scene h)))) =
           [MESH 0,
            CAMERA ((default_camera e)\<lparr>lens := 50, clip_end := 1000\<rparr>),
            LIGHT ((default_light e)\<lparr>light_type := ''SUN'', energy := 3.0\<rparr>),
            LIGHT ((default_light e)\<lparr>light_type := ''SUN'', energy := 1.5\<rparr>),
            LIGHT ((default_light e)\<lparr>light_type := ''SUN'', energy := 2.0\<rparr>)]"
    unfolding added_def Let_def by blast
  from m have "map (\<lambda>i. selectable (object_at (doc (ended (main e h))) i))
      (added (object_ids (doc (clear_scene h)))) = [True, True, True, True, True]"
    unfolding added_def Let_def by blast
  then show "list_all (\<lambda>i. selectable (object_at (doc (ended (main e h))) i))
           (added (object_ids (doc (clear_scene h))))"
    by (simp add: added_def Let_def)
  from m show "mesh_ids (doc (ended (main e h))) = [0]"
    by blast
qed

lemma main_objects_with:
  assumes "path_exists e (path_join (script_dir e) IMAGE_FILENAME)"
  shows "objects_with P (doc (ended (main e h))) =
           objects_with P (doc (clear_scene h)) @
           filter (\<lambda>i. P (ob_data (object_at (doc (ended (main e h))) i)))
             (added (object_ids (doc (clear_scene h))))"
proof -
  have "filter (\<lambda>i. P (ob_data (object_at (doc (ended (main e h))) i))) (object_ids (doc (clear_scene h))) =
        filter (\<lambda>i. P (ob_data (object_at (doc (clear_scene h)) i))) (object_ids (doc (clear_scene h)))"
    by (rule filter_cong) (simp_all add: main_added(2) [OF assms])
  then show ?thesis
    by (simp add: objects_with_def main_added(1) [OF assms])
qed

lemma main_counts:
  assumes "path_exists e (path_join (script_dir e) IMAGE_FILENAME)"
  shows "length (objects_with is_mesh (doc (ended (main e h)))) =
           length (objects_with is_mesh (doc (clear_scene h))) + 1"
    and "length (objects_with is_camera (doc (ended (main e h)))) =
           length (objects_with is_camera (doc (clear_scene h))) + 1"
    and "length (objects_with is_light (doc (ended (main e h)))) =
           length (objects_with is_light (doc (clear_scene h))) + 3"
    and "length (object_ids (doc (ended (main e h)))) =
           length (object_ids (doc (clear_scene h))) + 5"
proof -
  note k = main_added(3) [OF assms, of h, unfolded added_def Let_def, simplified]
  show "length (objects_with is_mesh (doc (ended (main e h)))) =
           length (objects_with is_mesh (doc (clear_scene h))) + 1"
    by (simp add: main_objects_with [OF assms] added_def Let_def k is_mesh_def)
  show "length (objects_with is_camera (doc (ended (main e h)))) =
           length (objects_with is_camera (doc (clear_scene h))) + 1"
    by (simp add: main_objects_with [OF assms] added_def Let_def k is_camera_def)
  show "length (objects_with is_light (doc (ended (main e h)))) =
           length (objects_with is_light (doc (clear_scene h))) + 3"
    by (simp add: main_objects_with [OF assms] added_def Let_def k is_light_def)
  show "length (object_ids (doc (ended (main e h)))) =
           length (object_ids (doc (clear_scene h))) + 5"
    by (simp add: main_added(1) [OF assms] added_def Let_def)
qed

text \<open>Clearing a built document leaves what clearing the document before the build left.\<close>

lemma clear_after_build:
  assumes p: "path_exists e (path_join (script_dir e) IMAGE_FILENAME)"
    and l: "meshes_live (doc h)"
  shows "object_ids (doc (clear_scene (ended (main e h)))) = object_ids (doc (clear_scene h))"
proof -
  let ?d1 = "doc (ended (main e h))"
  let ?S = "object_ids (doc (clear_scene h))"
  have old: "stays ?d1 i" if i: "i \<in> set ?S" for i
  proof -
    from i have s: "stays (doc h) i" and ii: "i \<in> set (object_ids (doc h))"
      by (simp_all add: clear_scene_facts)
    from l ii have "case ob_data (object_at (doc h) i) of
        MESH m \<Rightarrow> m \<in> set (mesh_ids (doc h)) | _ \<Rightarrow> True"
      by (simp add: meshes_live_def list_all_iff)
    with s have nm: "\<forall>m. ob_data (object_at (doc h) i) \<noteq> MESH m"
      by (auto simp add: stays_def split: obdata.splits)
    from s have "\<not> selectable (object_at (doc h) i)"
      by (simp add: stays_def)
    with nm show ?thesis
      by (auto simp add: stays_def main_added(2) [OF p i] clear_scene_object_kind
          split: obdata.splits)
  qed
  have new: "\<not> stays ?d1 i" if "i \<in> set (added ?S)" for i
    using main_added(4) [OF p, of h] that by (auto simp add: list_all_iff stays_def)
  have "filter (stays ?d1) ?S = ?S"
    using old by (simp add: filter_id_conv)
  moreover have "filter (stays ?d1) (added ?S) = []"
    using new by (simp add: filter_empty_conv)
  ultimately show ?thesis
    by (simp add: clear_scene_facts(1) [of "ended (main e h)"] main_added(1) [OF p])
qed

section \<open>Properties\<close>

text \<open>
  Claim C1. When the image file is not at the configured path, \<^verbatim>\<open>load_image\<close> returns
  \<^verbatim>\<open>None\<close> and \<^verbatim>\<open>main\<close> returns right after the error line: what it has printed
  ends with that line and the document is the one the clear step left. Nothing has been
  created: every object is one the document had before, of no kind are there more objects
  than before, there is no mesh and no material, the scene's camera is the one it had or
  none, the textures, images, world and render settings are as before, and nothing has
  been saved or rendered.
\<close>

theorem missing_image_returns_before_creation:
  "\<not> path_exists e (path_join (script_dir e) IMAGE_FILENAME) \<Longrightarrow>
   (let p = path_join (script_dir e) IMAGE_FILENAME; r = main e h; h' = ended r in
      fst (load_image e p h) = None \<and>
      returned r \<and>
      stdout h' = stdout h @
        [banner, [Txt ''Creating 3D Mandelbrot heightmap scene''], banner,
         [Txt ''Clearing scene...''], [Txt ''Loading image: '', Txt p],
         [Txt ''Error: Image file not found: '', Txt p]] \<and>
      doc h' = doc (clear_scene h) \<and>
      set (object_ids (doc h')) \<subseteq> set (object_ids (doc h)) \<and>
      length (objects_with P (doc h')) \<le> length (objects_with P (doc h)) \<and>
      mesh_ids (doc h') = [] \<and>
      material_ids (doc h') = [] \<and>
      texture_ids (doc h') = texture_ids (doc h) \<and>
      images (doc h') = images (doc h) \<and>
      (scene_camera (doc h') = None \<or> scene_camera (doc h') = scene_camera (doc h)) \<and>
      scene_world (doc h') = scene_world (doc h) \<and>
      render (doc h') = render (doc h) \<and>
      blend_files h' = blend_files h \<and>
      image_files h' = image_files h)"
proof -
  assume a: "\<not> path_exists e (path_join (script_dir e) IMAGE_FILENAME)"
  have d: "doc (ended (main e h)) = doc (clear_scene h)"
    by (simp add: main_missing [OF a] ended_def doc_print_line clear_scene_print_line)
  have c: "scene_camera (doc (clear_scene h)) = None \<or>
           scene_camera (doc (clear_scene h)) = scene_camera (doc h)"
    by (simp add: clear_scene_facts keep_live_def split: option.splits)
  have n: "length (objects_with P (doc (clear_scene h))) \<le> length (objects_with P (doc h))"
    by (simp add: clear_objects_with)
  have s: "set (object_ids (doc (clear_scene h))) \<subseteq> set (object_ids (doc h))"
    by (simp add: clear_scene_facts)
  have rest: "returned (main e h)"
    "stdout (ended (main e h)) = stdout h @
        [banner, [Txt ''Creating 3D Mandelbrot heightmap scene''], banner,
         [Txt ''Clearing scene...''],
         [Txt ''Loading image: '', Txt (path_join (script_dir e) IMAGE_FILENAME)],
         [Txt ''Error: Image file not found: '', Txt (path_join (script_dir e) IMAGE_FILENAME)]]"
    "blend_files (ended (main e h)) = blend_files h"
    "image_files (ended (main e h)) = image_files h"
    by (simp_all add: main_missing [OF a] ended_def returned_def clear_scene_facts print_line_def)
  show ?thesis
    unfolding Let_def d using a c n s rest
    by (simp add: load_image_def clear_scene_facts)
qed

theorem missing_image_returns_before_creation_witness:
  "\<not> path_exists demo_env_missing (path_join (script_dir demo_env_missing) IMAGE_FILENAME) \<and>
   object_ids (doc demo_host) = [0] \<and>
   returned (main demo_env_missing demo_host) \<and>
   object_ids (doc (ended (main demo_env_missing demo_host))) = [] \<and>
   mesh_ids (doc (ended (main demo_env_missing demo_host))) = [] \<and>
   material_ids (doc (ended (main demo_env_missing demo_host))) = [] \<and>
   blend_files (ended (main demo_env_missing demo_host)) = [] \<and>
   last (stdout (ended (main demo_env_missing demo_host))) =
     [Txt ''Error: Image file not found: '', Txt ''/work/mandelbrot2d.png'']"
  using missing_image_returns_before_creation
    [where e = demo_env_missing and h = demo_host and P = is_mesh]
  by (simp add: Let_def demo_paths demo_exists demo_host_facts clear_scene_facts)

text \<open>
  Claim C2. For every subdivision level \<open>n \<ge> 0\<close>, after the loop of \<open>n\<close> subdivision passes
  over the fully selected plane the plane has \<open>(2\<^sup>n + 1)\<^sup>2\<close> vertices, which is also the
  number the builder prints; one more pass gives more than twice and less than four
  times as many.
\<close>

theorem subdivision_vertex_count:
  "0 \<le> n \<Longrightarrow>
   (let r = create_heightmap_mesh e img n s p h in
      int (len_data_vertices (doc (snd r)) (fst r)) = (2 ^ nat n + 1)\<^sup>2 \<and>
      last (stdout (snd r)) =
        [Txt ''Created plane with '', IntV ((2 ^ nat n + 1)\<^sup>2), Txt '' vertices'']) \<and>
   (let v = (\<lambda>k. len_data_vertices (doc (snd (create_heightmap_mesh e img k s p h)))
                   (fst (create_heightmap_mesh e img k s p h)))
    in 2 * v n < v (n + 1) \<and> v (n + 1) < 4 * v n)"
proof -
  assume n: "0 \<le> n"
  have v: "len_data_vertices (doc (snd (create_heightmap_mesh e img k s p h)))
             (fst (create_heightmap_mesh e img k s p h)) = (2 ^ nat k + 1)\<^sup>2" for k
    by (simp add: create_heightmap_mesh_eq Let_def len_data_vertices_def verts_funpow_plane)
  have l: "last (stdout (snd (create_heightmap_mesh e img n s p h))) =
        [Txt ''Created plane with '', IntV ((2 ^ nat n + 1)\<^sup>2), Txt '' vertices'']"
    by (simp add: create_heightmap_mesh_eq Let_def verts_funpow_plane)
  define a :: nat where "a = 2 ^ nat n"
  have a1: "1 \<le> a" by (simp add: a_def)
  then have aa: "1 \<le> a * a" by simp
  have eq: "a * (a * 2) = a * a + a * a" by simp
  have a2: "1 < a * (a * 2)" unfolding eq using aa by linarith
  from n have s: "nat (n + 1) = Suc (nat n)" by simp
  have g: "2 * (a + 1)\<^sup>2 < (2 * a + 1)\<^sup>2" "(2 * a + 1)\<^sup>2 < 4 * (a + 1)\<^sup>2"
    using a1 a2 by (simp_all add: power2_eq_square algebra_simps)
  show ?thesis
    using g by (simp add: Let_def v l s a_def)
qed

theorem subdivision_vertex_count_witness:
  "0 \<le> SUBDIVISION_LEVEL \<and>
   int (len_data_vertices
          (doc (snd (create_heightmap_mesh demo_env demo_image SUBDIVISION_LEVEL
                       DISPLACEMENT_STRENGTH PLANE_SIZE demo_host)))
          (fst (create_heightmap_mesh demo_env demo_image SUBDIVISION_LEVEL
                  DISPLACEMENT_STRENGTH PLANE_SIZE demo_host))) = 66049"
  using subdivision_vertex_count [of SUBDIVISION_LEVEL demo_env demo_image
      DISPLACEMENT_STRENGTH PLANE_SIZE demo_host]
  by (simp add: Let_def SUBDIVISION_LEVEL_def)

text \<open>
  Claim C3. \<^verbatim>\<open>setup_camera\<close> adds a camera at \<open>(15, -15, 10)\<close>, gives it the tracking
  rotation of the vector from there to the target's location, and makes it the scene's
  camera. That rotation keeps the camera's local \<open>X\<close> axis level and its local \<open>Y\<close>
  axis from pointing downward, and, unless the target sits at the camera's place, turns
  the local \<open>-Z\<close> axis onto the direction of that vector. For a target at the origin the
  rotation is a tilt of \<open>arccos (10 / sqrt 550)\<close> about \<open>X\<close>, no roll, and a heading of a
  quarter of \<open>pi\<close> about \<open>Z\<close>, and the local \<open>-Z\<close> axis comes to lie along
  \<open>(-15, 15, -10) / sqrt 550\<close>. The numbers are reals, so the agreement with the
  expected rotation is exact.
\<close>

theorem camera_look_at:
  "target \<in> set (object_ids (doc h)) \<Longrightarrow>
   (let r = setup_camera e target h;
        camera = fst r;
        d' = doc (snd r);
        t = ob_location (object_at (doc h) target);
        rot = ob_rotation_euler (object_at d' camera)
    in camera \<notin> set (object_ids (doc h)) \<and>
       object_ids d' = object_ids (doc h) @ [camera] \<and>
       is_camera (ob_data (object_at d' camera)) \<and>
       ob_location (object_at d' camera) = (15, -15, 10) \<and>
       rot = to_track_euler (vsub t (15, -15, 10)) \<and>
       snd (snd (rotate_euler rot (1, 0, 0))) = 0 \<and>
       0 \<le> snd (snd (rotate_euler rot (0, 1, 0))) \<and>
       (t \<noteq> (15, -15, 10) \<longrightarrow>
          rotate_euler rot (0, 0, -1) = normalized (vsub t (15, -15, 10))) \<and>
       (t = (0, 0, 0) \<longrightarrow>
          rot = (arccos (10 / sqrt 550), 0, pi / 4) \<and>
          rotate_euler rot (0, 0, -1) = (- 15 / sqrt 550, 15 / sqrt 550, - 10 / sqrt 550)) \<and>
       scene_camera d' = Some camera)"
proof -
  assume a: "target \<in> set (object_ids (doc h))"
  define t where "t = ob_location (object_at (doc h) target)"
  define camera where "camera = fst (setup_camera e target h)"
  define d' where "d' = doc (snd (setup_camera e target h))"
  define rot where "rot = ob_rotation_euler (object_at d' camera)"
  note m = setup_camera_aim [OF a, of e, unfolded Let_def, folded camera_def d'_def t_def]
  from m have f: "camera = fresh (object_ids (doc h))"
    "object_ids d' = object_ids (doc h) @ [camera]"
    "ob_location (object_at d' camera) = (15, -15, 10)"
    "rot = to_track_euler (vsub t (15, -15, 10))"
    "ob_data (object_at d' camera) = CAMERA ((default_camera e)\<lparr>lens := 50, clip_end := 1000\<rparr>)"
    "scene_camera d' = Some camera"
    unfolding rot_def by blast+
  have new: "camera \<notin> set (object_ids (doc h))"
    unfolding f(1) by (rule fresh_notin)
  have k: "is_camera (ob_data (object_at d' camera))"
    by (simp add: f(5) is_camera_def)
  have lvl: "snd (snd (rotate_euler rot (1, 0, 0))) = 0"
    "0 \<le> snd (snd (rotate_euler rot (0, 1, 0)))"
    unfolding f(4) by (rule rotate_track_level, rule rotate_track_up)
  have aim: "rotate_euler rot (0, 0, -1) = normalized (vsub t (15, -15, 10))"
    if "t \<noteq> (15, -15, 10)"
  proof -
    obtain x y z where v: "vsub t (15, -15, 10) = (x, y, z)"
      by (cases "vsub t (15, -15, 10)") auto
    from that have "(x, y, z) \<noteq> (0, 0, 0)"
      using v by (cases t) (auto simp add: vsub_def)
    from rotate_track_aim [OF this] show ?thesis
      by (simp add: f(4) v normalized_def)
  qed
  have org: "rot = (arccos (10 / sqrt 550), 0, pi / 4) \<and>
      rotate_euler rot (0, 0, -1) = (- 15 / sqrt 550, 15 / sqrt 550, - 10 / sqrt 550)"
    if o: "t = (0, 0, 0)"
  proof -
    have v: "vsub t (15, -15, 10) = (- 15, 15, - 10)"
      by (simp add: o vsub_def)
    have r: "rot = (arccos (10 / sqrt 550), 0, pi / 4)"
      by (simp add: f(4) v track_euler_origin)
    have "(- 15, 15, - 10) \<noteq> (0 :: real, 0 :: real, 0 :: real)" by simp
    from rotate_track_aim [OF this]
    have "rotate_euler rot (0, 0, -1) = (- 15 / sqrt 550, 15 / sqrt 550, - 10 / sqrt 550)"
      by (simp add: f(4) v)
    with r show ?thesis by simp
  qed
  show ?thesis
    unfolding Let_def
    unfolding camera_def [symmetric] d'_def [symmetric] t_def [symmetric] rot_def [symmetric]
    using new f(2,3,4,6) k lvl aim org by blast
qed

theorem camera_look_at_witness:
  "0 \<in> set (object_ids (doc demo_host)) \<and>
   ob_location (object_at (doc demo_host) 0) = (0, 0, 0) \<and>
   fst (setup_camera demo_env 0 demo_host) = 1 \<and>
   ob_rotation_euler (object_at (doc (snd (setup_camera demo_env 0 demo_host))) 1) =
     (arccos (10 / sqrt 550), 0, pi / 4) \<and>
   rotate_euler (arccos (10 / sqrt 550), 0, pi / 4) (0, 0, -1) =
     (- 15 / sqrt 550, 15 / sqrt 550, - 10 / sqrt 550) \<and>
   scene_camera (doc (snd (setup_camera demo_env 0 demo_host))) = Some 1"
proof -
  have a: "0 \<in> set (object_ids (doc demo_host))"
    by (simp add: demo_host_facts)
  have l: "ob_location (object_at (doc demo_host) 0) = (0, 0, 0)"
    by (simp add: demo_host_def demo_doc_def demo_cube_def)
  note t = camera_look_at [OF a, of demo_env, unfolded Let_def l]
  from t have c: "object_ids (doc (snd (setup_camera demo_env 0 demo_host))) =
      object_ids (doc demo_host) @ [fst (setup_camera demo_env 0 demo_host)]"
    by blast
  have one: "fst (setup_camera demo_env 0 demo_host) = 1"
    by (simp add: setup_camera_def with_doc_eq camera_add_def Let_def split_def demo_host_facts)
  from t have r: "ob_rotation_euler (object_at (doc (snd (setup_camera demo_env 0 demo_host)))
        (fst (setup_camera demo_env 0 demo_host))) = (arccos (10 / sqrt 550), 0, pi / 4)"
    "rotate_euler (ob_rotation_euler (object_at (doc (snd (setup_camera demo_env 0 demo_host)))
        (fst (setup_camera demo_env 0 demo_host)))) (0, 0, -1) =
      (- 15 / sqrt 550, 15 / sqrt 550, - 10 / sqrt 550)"
    "scene_camera (doc (snd (setup_camera demo_env 0 demo_host))) =
      Some (fst (setup_camera demo_env 0 demo_host))"
    by blast+
  from r show ?thesis
    unfolding one using a l one by simp
qed

text \<open>
  Claim C4, as the code has it. When the image file is present and the scene has a world
  that \<^verbatim>\<open>setup_world\<close> can configure, the build runs to its end and saves the document,
  which is the final one, with that world configured. It has added one mesh object, one
  camera and three sun lights to the objects the clear step left, and made the new camera
  the scene's camera. No mesh object is left by the clear step in a document whose meshes
  are all its own, so the plane is then the only mesh object; and when every object of
  the starting document is within reach of the selection operators the final document
  holds exactly one mesh object, one camera and three lights, five objects in all.
\<close>

theorem build_populates_scene:
  "path_exists e (path_join (script_dir e) IMAGE_FILENAME) \<Longrightarrow>
   world_ready e (doc h) \<Longrightarrow>
   (let r = main e h; h' = ended r; d' = doc h'; dc = doc (clear_scene h);
        camera = fresh (object_ids dc) + 1 in
      returned r \<and>
      blend_files h' =
        blend_files h @ [(path_join (script_dir e) ''mandelbrot_3d_scene.blend'', d')] \<and>
      [Txt ''Scene creation complete!''] \<in> set (stdout h') \<and>
      map_option w_use_nodes (scene_world d') = Some True \<and>
      map_option bg_color (world_node ''Background'' d') = Some (0.05, 0.05, 0.05, 1.0) \<and>
      map_option bg_strength (world_node ''Background'' d') = Some 0.3 \<and>
      object_ids dc = filter (stays (doc h)) (object_ids (doc h)) \<and>
      object_ids d' = object_ids dc @ added (object_ids dc) \<and>
      map (\<lambda>i. ob_data (object_at d' i)) (added (object_ids dc)) =
        [MESH 0,
         CAMERA ((default_camera e)\<lparr>lens := 50, clip_end := 1000\<rparr>),
         LIGHT ((default_light e)\<lparr>light_type := ''SUN'', energy := 3.0\<rparr>),
         LIGHT ((default_light e)\<lparr>light_type := ''SUN'', energy := 1.5\<rparr>),
         LIGHT ((default_light e)\<lparr>light_type := ''SUN'', energy := 2.0\<rparr>)] \<and>
      length (objects_with is_mesh d') = length (objects_with is_mesh dc) + 1 \<and>
      length (objects_with is_camera d') = length (objects_with is_camera dc) + 1 \<and>
      length (objects_with is_light d') = length (objects_with is_light dc) + 3 \<and>
      length (object_ids d') = length (object_ids dc) + 5 \<and>
      (meshes_live (doc h) \<longrightarrow> length (objects_with is_mesh d') = 1) \<and>
      (all_selectable (doc h) \<longrightarrow>
         length (objects_with is_mesh d') = 1 \<and>
         length (objects_with is_camera d') = 1 \<and>
         length (objects_with is_light d') = 3 \<and>
         length (object_ids d') = 5) \<and>
      scene_camera d' = Some camera \<and>
      is_camera (ob_data (object_at d' camera)))"
proof -
  assume a: "path_exists e (path_join (script_dir e) IMAGE_FILENAME)"
    and wr: "world_ready e (doc h)"
  note m = main_present [OF a, of h, unfolded Let_def]
  note c = main_counts [OF a, of h]
  have r: "returned (main e h)"
    using m wr by blast
  from m wr have bf: "blend_files (ended (main e h)) =
      blend_files h @ [(path_join (script_dir e) ''mandelbrot_3d_scene.blend'',
                        doc (ended (main e h)))]"
    by simp
  from m wr have w:
    "[Txt ''Scene creation complete!''] \<in> set (stdout (ended (main e h)))"
    "map_option w_use_nodes (scene_world (doc (ended (main e h)))) = Some True"
    "map_option bg_color (world_node ''Background'' (doc (ended (main e h)))) =
       Some (0.05, 0.05, 0.05, 1.0)"
    "map_option bg_strength (world_node ''Background'' (doc (ended (main e h)))) = Some 0.3"
    by blast+
  have k: "map (\<lambda>i. ob_data (object_at (doc (ended (main e h))) i))
             (added (object_ids (doc (clear_scene h)))) =
        [MESH 0,
         CAMERA ((default_camera e)\<lparr>lens := 50, clip_end := 1000\<rparr>),
         LIGHT ((default_light e)\<lparr>light_type := ''SUN'', energy := 3.0\<rparr>),
         LIGHT ((default_light e)\<lparr>light_type := ''SUN'', energy := 1.5\<rparr>),
         LIGHT ((default_light e)\<lparr>light_type := ''SUN'', energy := 2.0\<rparr>)]"
    by (rule main_added(3) [OF a])
  have ml: "meshes_live (doc h) \<longrightarrow>
      length (objects_with is_mesh (doc (ended (main e h)))) = 1"
    by (simp add: c clear_meshes_live)
  have as: "all_selectable (doc h) \<longrightarrow>
         length (objects_with is_mesh (doc (ended (main e h)))) = 1 \<and>
         length (objects_with is_camera (doc (ended (main e h)))) = 1 \<and>
         length (objects_with is_light (doc (ended (main e h)))) = 3 \<and>
         length (object_ids (doc (ended (main e h)))) = 5"
    by (simp add: c clear_all_selectable clear_all_selectable_with)
  from m have cam: "scene_camera (doc (ended (main e h))) =
      Some (fresh (object_ids (doc (clear_scene h))) + 1)"
    by blast
  from k have ic: "is_camera (ob_data (object_at (doc (ended (main e h)))
      (fresh (object_ids (doc (clear_scene h))) + 1)))"
    by (simp add: added_def Let_def is_camera_def)
  show ?thesis
    unfolding Let_def
    using r bf w k ml as cam ic c main_added(1) [OF a, of h] clear_scene_facts(1) [of h]
    by blast
qed

theorem build_populates_scene_witness:
  "path_exists demo_env (path_join (script_dir demo_env) IMAGE_FILENAME) \<and>
   world_ready demo_env (doc demo_host) \<and>
   meshes_live (doc demo_host) \<and> all_selectable (doc demo_host) \<and>
   length (objects_with is_mesh (doc demo_host)) = 1 \<and>
   length (objects_with is_camera (doc demo_host)) = 0 \<and>
   returned (main demo_env demo_host) \<and>
   length (objects_with is_mesh (doc (ended (main demo_env demo_host)))) = 1 \<and>
   length (objects_with is_camera (doc (ended (main demo_env demo_host)))) = 1 \<and>
   length (objects_with is_light (doc (ended (main demo_env demo_host)))) = 3 \<and>
   length (object_ids (doc (ended (main demo_env demo_host)))) = 5 \<and>
   scene_camera (doc (ended (main demo_env demo_host))) = Some 1 \<and>
   map fst (blend_files (ended (main demo_env demo_host))) = [''/work/mandelbrot_3d_scene.blend'']"
  using build_populates_scene [OF demo_present demo_host_facts(13)]
  by (simp add: Let_def demo_exists demo_host_facts demo_paths clear_objects_with added_def)

text \<open>
  Claim C4 as it is worded fails on two documents. In the example document with a light
  that is barred from selection the image is present, the build runs to its end, and the
  final document holds four lights and six objects. In the example document without a
  world the image is present too, and the build raises in \<^verbatim>\<open>setup_world\<close> and saves
  nothing.
\<close>

theorem build_keeps_locked_light:
  "path_exists demo_env (path_join (script_dir demo_env) IMAGE_FILENAME) \<and>
   returned (main demo_env demo_host_lamp) \<and>
   length (objects_with is_light (doc (ended (main demo_env demo_host_lamp)))) = 4 \<and>
   length (object_ids (doc (ended (main demo_env demo_host_lamp)))) = 6 \<and>
   main demo_env demo_host_no_world =
     Inl (AttributeError ''use_nodes'', ended (main demo_env demo_host_no_world)) \<and>
   \<not> returned (main demo_env demo_host_no_world) \<and>
   blend_files (ended (main demo_env demo_host_no_world)) = []"
proof -
  note m = main_present [OF demo_present, of demo_host_lamp, unfolded Let_def]
  note n = main_present [OF demo_present, of demo_host_no_world, unfolded Let_def]
  note c = main_counts [OF demo_present, of demo_host_lamp]
  from m have "returned (main demo_env demo_host_lamp)"
    by (simp add: demo_host_lamp_facts)
  moreover from c have
    "length (objects_with is_light (doc (ended (main demo_env demo_host_lamp)))) = 4"
    "length (object_ids (doc (ended (main demo_env demo_host_lamp)))) = 6"
    by (simp_all add: demo_host_lamp_facts)
  moreover from n have "main demo_env demo_host_no_world =
     Inl (AttributeError ''use_nodes'', ended (main demo_env demo_host_no_world))"
    using other_host_facts(6) by blast
  moreover from n have "\<not> returned (main demo_env demo_host_no_world)"
    "blend_files (ended (main demo_env demo_host_no_world)) = []"
    by (simp_all add: other_host_facts)
  ultimately show ?thesis
    using demo_present by blast
qed

text \<open>
  Claim C5, as the code has it. The clear step removes every object within reach of the
  selection operators and, with the meshes, every object on one of them; it leaves the
  others, and no mesh and no material. The build then adds five objects when the image is
  present and none when it is not. So a build of a document whose objects are all within
  reach ends with the same number of objects as a build of a document without objects,
  and a build of a built document (whose meshes are all its own) ends with the same
  number of objects as the build before it.
\<close>

theorem rebuild_same_object_count:
  "(let count = (\<lambda>x. length (object_ids (doc (ended (main e x)))));
        k = (if path_exists e (path_join (script_dir e) IMAGE_FILENAME) then 5 else 0)
    in count h = length (object_ids (doc (clear_scene h))) + k \<and>
       object_ids (doc (clear_scene h)) = filter (stays (doc h)) (object_ids (doc h)) \<and>
       mesh_ids (doc (clear_scene h)) = [] \<and>
       material_ids (doc (clear_scene h)) = [] \<and>
       (all_selectable (doc h) \<longrightarrow> object_ids (doc (clear_scene h)) = [] \<and> count h = k) \<and>
       (all_selectable (doc h) \<and> object_ids (doc h0) = [] \<longrightarrow> count h = count h0) \<and>
       (meshes_live (doc h) \<longrightarrow> count (ended (main e h)) = count h))"
proof -
  define k :: nat where
    "k = (if path_exists e (path_join (script_dir e) IMAGE_FILENAME) then 5 else 0)"
  have d: "doc (ended (main e x)) = doc (clear_scene x)"
    if "\<not> path_exists e (path_join (script_dir e) IMAGE_FILENAME)" for x
    by (simp add: main_missing [OF that] ended_def doc_print_line clear_scene_print_line)
  have n: "length (object_ids (doc (ended (main e x)))) =
           length (object_ids (doc (clear_scene x))) + k" for x
  proof (cases "path_exists e (path_join (script_dir e) IMAGE_FILENAME)")
    case True
    then show ?thesis by (simp add: main_counts(4) k_def)
  next
    case False
    then show ?thesis by (simp add: d k_def)
  qed
  have z: "object_ids (doc (clear_scene h0)) = []" if "object_ids (doc h0) = []"
    using that by (simp add: clear_scene_facts)
  have a: "all_selectable (doc h) \<longrightarrow>
      object_ids (doc (clear_scene h)) = [] \<and>
      length (object_ids (doc (ended (main e h)))) = k"
    by (simp add: n clear_all_selectable)
  have b: "all_selectable (doc h) \<and> object_ids (doc h0) = [] \<longrightarrow>
      length (object_ids (doc (ended (main e h)))) = length (object_ids (doc (ended (main e h0))))"
    by (simp add: n clear_all_selectable z)
  have c: "meshes_live (doc h) \<longrightarrow>
      length (object_ids (doc (ended (main e (ended (main e h)))))) =
      length (object_ids (doc (ended (main e h))))"
  proof
    assume l: "meshes_live (doc h)"
    have "object_ids (doc (clear_scene (ended (main e h)))) = object_ids (doc (clear_scene h))"
    proof (cases "path_exists e (path_join (script_dir e) IMAGE_FILENAME)")
      case True
      then show ?thesis using l by (rule clear_after_build)
    next
      case False
      have "doc (clear_scene (ended (main e h))) = doc (clear_scene (clear_scene h))"
        using doc_clear_scene_opened [of "ended (main e h)"] doc_clear_scene_opened [of "clear_scene h"]
        by (simp add: d [OF False])
      then show ?thesis by (simp add: clear_scene_twice)
    qed
    then show "length (object_ids (doc (ended (main e (ended (main e h)))))) =
      length (object_ids (doc (ended (main e h))))"
      by (simp add: n)
  qed
  show ?thesis
    unfolding Let_def k_def [symmetric]
    using n [of h] a b c by (simp add: clear_scene_facts)
qed

theorem rebuild_same_object_count_witness:
  "all_selectable (doc demo_host) \<and> meshes_live (doc demo_host) \<and>
   object_ids (doc empty_host) = [] \<and>
   length (object_ids (doc demo_host)) = 1 \<and>
   length (object_ids (doc (ended (main demo_env demo_host)))) = 5 \<and>
   length (object_ids (doc (ended (main demo_env empty_host)))) = 5 \<and>
   length (object_ids (doc (ended (main demo_env (ended (main demo_env demo_host)))))) = 5 \<and>
   length (object_ids (doc (ended (main demo_env_missing demo_host)))) = 0"
  using rebuild_same_object_count [of demo_env demo_host empty_host]
    rebuild_same_object_count [of demo_env_missing demo_host empty_host]
  by (simp add: Let_def demo_exists demo_host_facts demo_paths other_host_facts)

text \<open>
  Claim C5 as it is worded fails on the example document with a light that is barred
  from selection: the clear step leaves the light, and the build ends with six objects,
  where the build of the document without objects ends with five.
\<close>

theorem rebuild_counts_differ:
  "path_exists demo_env (path_join (script_dir demo_env) IMAGE_FILENAME) \<and>
   object_ids (doc demo_host_lamp) = [0, 1] \<and>
   object_ids (doc empty_host) = [] \<and>
   object_ids (doc (clear_scene demo_host_lamp)) = [1] \<and>
   length (object_ids (doc (ended (main demo_env demo_host_lamp)))) = 6 \<and>
   length (object_ids (doc (ended (main demo_env empty_host)))) = 5"
  using demo_present main_counts(4) [OF demo_present, of demo_host_lamp]
    main_counts(4) [OF demo_present, of empty_host]
  by (simp add: demo_host_lamp_facts other_host_facts)

text \<open>
  Claim C6. The plane's second modifier is a displacement modifier whose strength is the
  strength handed to \<^verbatim>\<open>create_heightmap_mesh\<close> (the constant \<^verbatim>\<open>DISPLACEMENT_STRENGTH\<close>
  in \<^verbatim>\<open>main\<close>), whose midpoint is zero, whose texture coordinates are the mesh's UV
  coordinates, and whose texture is a new image texture wrapping the very image that the
  material's image node feeds into the base colour. With the midpoint at zero the darkest
  pixel is not displaced, and for a strength that is not negative every pixel is
  displaced between zero and what the brightest pixel gets, the strength.
\<close>

theorem displacement_modifier_settings:
  "(let r = create_heightmap_mesh e img n s p h;
        d' = doc (snd r);
        tex = fresh (texture_ids (doc h));
        mat = fresh (material_ids (doc h));
        displace = (default_displace e)
          \<lparr>dp_name := ''Displace'', dp_strength := s, dp_mid_level := 0,
           dp_texture := Some tex, dp_texture_coords := ''UV''\<rparr>
    in ob_modifiers (object_at d' (fst r)) =
         [SUBSURF ((default_subsurf e)
            \<lparr>ss_name := ''Subdivision'', ss_levels := 2, ss_render_levels := 3\<rparr>),
          DISPLACE displace] \<and>
       dp_strength displace = s \<and>
       dp_mid_level displace = 0 \<and>
       dp_texture displace = Some tex \<and>
       dp_texture_coords displace = ''UV'' \<and>
       texture_ids d' = texture_ids (doc h) @ [tex] \<and>
       texture_at d' tex =
         \<lparr>tex_name = ''Mandelbrot_Displacement'', tex_type = ''IMAGE'', tex_image = Some img\<rparr> \<and>
       nd_type (nodes (material_at d' mat) ! 2) = ''ShaderNodeTexImage'' \<and>
       nd_image (nodes (material_at d' mat) ! 2) = Some img \<and>
       \<lparr>from_node = 2, from_socket = ''Color'', to_node = 1, to_socket = ''Base Color''\<rparr>
         \<in> set (links (material_at d' mat)) \<and>
       msh_uv_layers (mesh_at d' (fresh (mesh_ids (doc h)))) = [''UVMap''] \<and>
       displacement displace 0 = 0 \<and>
       displacement displace 1 = s \<and>
       (0 \<le> s \<longrightarrow>
          (\<forall>v. 0 \<le> v \<and> v \<le> 1 \<longrightarrow>
             0 \<le> displacement displace v \<and> displacement displace v \<le> displacement displace 1))) \<and>
   (path_exists e (path_join (script_dir e) IMAGE_FILENAME) \<longrightarrow>
      (let d' = doc (ended (main e h));
           plane = fresh (object_ids (doc (clear_scene h)));
           tex = fresh (texture_ids (doc h))
       in ob_modifiers (object_at d' plane) ! 1 =
            DISPLACE ((default_displace e)
              \<lparr>dp_name := ''Displace'', dp_strength := DISPLACEMENT_STRENGTH, dp_mid_level := 0,
               dp_texture := Some tex, dp_texture_coords := ''UV''\<rparr>) \<and>
          tex_image (texture_at d' tex) \<noteq> None \<and>
          nd_image (nodes (material_at d' 0) ! 2) = tex_image (texture_at d' tex)))"
proof -
  have A: "path_exists e (path_join (script_dir e) IMAGE_FILENAME) \<longrightarrow>
      (let d' = doc (ended (main e h));
           plane = fresh (object_ids (doc (clear_scene h)));
           tex = fresh (texture_ids (doc h))
       in ob_modifiers (object_at d' plane) ! 1 =
            DISPLACE ((default_displace e)
              \<lparr>dp_name := ''Displace'', dp_strength := DISPLACEMENT_STRENGTH, dp_mid_level := 0,
               dp_texture := Some tex, dp_texture_coords := ''UV''\<rparr>) \<and>
          tex_image (texture_at d' tex) \<noteq> None \<and>
          nd_image (nodes (material_at d' 0) ! 2) = tex_image (texture_at d' tex))"
  proof
    assume a: "path_exists e (path_join (script_dir e) IMAGE_FILENAME)"
    note m = main_present [OF a, of h, unfolded Let_def]
    from m have "ob_modifiers (object_at (doc (ended (main e h)))
                    (fresh (object_ids (doc (clear_scene h))))) =
             [SUBSURF ((default_subsurf e)
                \<lparr>ss_name := ''Subdivision'', ss_levels := 2, ss_render_levels := 3\<rparr>),
              DISPLACE ((default_displace e)
                \<lparr>dp_name := ''Displace'', dp_strength := DISPLACEMENT_STRENGTH, dp_mid_level := 0,
                 dp_texture := Some (fresh (texture_ids (doc h))), dp_texture_coords := ''UV''\<rparr>)]"
      by blast
    moreover from m have
      "tex_image (texture_at (doc (ended (main e h))) (fresh (texture_ids (doc h)))) \<noteq> None"
      "nd_image (nodes (material_at (doc (ended (main e h))) 0) ! 2) =
         tex_image (texture_at (doc (ended (main e h))) (fresh (texture_ids (doc h))))"
      by blast+
    ultimately show "let d' = doc (ended (main e h));
           plane = fresh (object_ids (doc (clear_scene h)));
           tex = fresh (texture_ids (doc h))
       in ob_modifiers (object_at d' plane) ! 1 =
            DISPLACE ((default_displace e)
              \<lparr>dp_name := ''Displace'', dp_strength := DISPLACEMENT_STRENGTH, dp_mid_level := 0,
               dp_texture := Some tex, dp_texture_coords := ''UV''\<rparr>) \<and>
          tex_image (texture_at d' tex) \<noteq> None \<and>
          nd_image (nodes (material_at d' 0) ! 2) = tex_image (texture_at d' tex)"
      by (simp add: Let_def)
  qed
  have B: "0 \<le> s \<longrightarrow>
          (\<forall>v. 0 \<le> v \<and> v \<le> 1 \<longrightarrow>
             0 \<le> displacement (d\<lparr>dp_strength := s, dp_mid_level := 0, dp_texture := t,
                                  dp_texture_coords := c\<rparr>) v \<and>
             displacement (d\<lparr>dp_strength := s, dp_mid_level := 0, dp_texture := t,
                              dp_texture_coords := c\<rparr>) v
               \<le> displacement (d\<lparr>dp_strength := s, dp_mid_level := 0, dp_texture := t,
                              dp_texture_coords := c\<rparr>) 1)" for d t c
    by (simp add: displacement_bounds)
  show ?thesis
    apply (rule conjI)
     apply (simp add: create_heightmap_mesh_eq Let_def subdivide_funpow_uv_layers B)
     apply (simp add: displacement_def)
    apply (rule A)
    done
qed

theorem displacement_modifier_settings_witness:
  "path_exists demo_env (path_join (script_dir demo_env) IMAGE_FILENAME) \<and>
   0 \<le> DISPLACEMENT_STRENGTH \<and>
   ob_modifiers (object_at (doc (ended (main demo_env demo_host))) 0) ! 1 =
     DISPLACE \<lparr>dp_name = ''Displace'', dp_strength = 2, dp_mid_level = 0,
               dp_texture = Some 0, dp_texture_coords = ''UV''\<rparr> \<and>
   displacement \<lparr>dp_name = ''Displace'', dp_strength = 2, dp_mid_level = 0,
                 dp_texture = Some 0, dp_texture_coords = ''UV''\<rparr> 0 = 0 \<and>
   displacement \<lparr>dp_name = ''Displace'', dp_strength = 2, dp_mid_level = 0,
                 dp_texture = Some 0, dp_texture_coords = ''UV''\<rparr> (1 / 2) \<le>
   displacement \<lparr>dp_name = ''Displace'', dp_strength = 2, dp_mid_level = 0,
                 dp_texture = Some 0, dp_texture_coords = ''UV''\<rparr> 1"
proof -
  have d: "(default_displace demo_env)
              \<lparr>dp_name := ''Displace'', dp_strength := DISPLACEMENT_STRENGTH, dp_mid_level := 0,
               dp_texture := Some (fresh (texture_ids (doc demo_host))),
               dp_texture_coords := ''UV''\<rparr> =
           \<lparr>dp_name = ''Displace'', dp_strength = 2, dp_mid_level = 0,
            dp_texture = Some 0, dp_texture_coords = ''UV''\<rparr>"
    by (simp add: demo_env_def demo_host_facts DISPLACEMENT_STRENGTH_def)
  have s: "(0::real) \<le> DISPLACEMENT_STRENGTH" "(0::real) \<le> 1 / 2 \<and> (1 / 2 :: real) \<le> 1"
    by (simp_all add: DISPLACEMENT_STRENGTH_def)
  note t = displacement_modifier_settings [of demo_env demo_image SUBDIVISION_LEVEL
      DISPLACEMENT_STRENGTH PLANE_SIZE demo_host, unfolded Let_def d demo_host_facts(14) fresh.simps]
  from t demo_present have
    "ob_modifiers (object_at (doc (ended (main demo_env demo_host))) 0) ! 1 =
     DISPLACE \<lparr>dp_name = ''Displace'', dp_strength = 2, dp_mid_level = 0,
               dp_texture = Some 0, dp_texture_coords = ''UV''\<rparr>"
    by blast
  moreover from t s have
    "displacement \<lparr>dp_name = ''Displace'', dp_strength = 2, dp_mid_level = 0,
                 dp_texture = Some 0, dp_texture_coords = ''UV''\<rparr> 0 = 0"
    "displacement \<lparr>dp_name = ''Displace'', dp_strength = 2, dp_mid_level = 0,
                 dp_texture = Some 0, dp_texture_coords = ''UV''\<rparr> (1 / 2) \<le>
     displacement \<lparr>dp_name = ''Displace'', dp_strength = 2, dp_mid_level = 0,
                 dp_texture = Some 0, dp_texture_coords = ''UV''\<rparr> 1"
    by blast+
  ultimately show ?thesis
    using demo_present s by blast
qed

text \<open>
  Claim C7, as the code has it. The preview renderer sets the output path to the configured
  file beside the script, the format to PNG and the colour mode to RGB, and makes exactly
  one render call that writes a still. It sets a sample count only for the Cycles engine
  (\<^verbatim>\<open>RENDER_SAMPLES\<close>); for any other engine both sample settings stay as they were.
\<close>

theorem render_preview_settings:
  "let h' = render_preview e h;
       output_path = path_join (script_dir e) OUTPUT_FILENAME;
       r = render (doc h)
   in render (doc h') =
        r\<lparr>render_filepath := output_path, file_format := ''PNG'', color_mode := ''RGB''\<rparr> \<and>
      cycles_samples (doc h') =
        (if engine r = ''CYCLES'' then RENDER_SAMPLES else cycles_samples (doc h)) \<and>
      eevee_taa_render_samples (doc h') = eevee_taa_render_samples (doc h) \<and>
      image_files h' = image_files h @
        [(output_path,
          \<lparr>rr_format = ''PNG'', rr_color_mode = ''RGB'',
           rr_width = resolution_x r * resolution_percentage r div 100,
           rr_height = resolution_y r * resolution_percentage r div 100\<rparr>)] \<and>
      blend_files h' = blend_files h"
  by (simp add: render_preview_eq Let_def)

theorem render_preview_settings_witness:
  "engine (render (doc (opened (doc (ended (main demo_env demo_host)))))) = ''CYCLES'' \<and>
   cycles_samples (doc (opened (doc (ended (main demo_env demo_host))))) = 128 \<and>
   cycles_samples (doc (render_preview demo_env (opened (doc (ended (main demo_env demo_host)))))) = 64 \<and>
   length (image_files (render_preview demo_env (opened (doc (ended (main demo_env demo_host)))))) = 1"
proof -
  have m: "engine (render (doc (ended (main demo_env demo_host)))) = ''CYCLES''"
    "cycles_samples (doc (ended (main demo_env demo_host))) = 128"
    using main_present [OF demo_present, of demo_host]
    by (simp_all add: Let_def demo_host_facts)
  show ?thesis
    using render_preview_settings [of demo_env "opened (doc (ended (main demo_env demo_host)))"] m
    by (simp add: Let_def opened_def RENDER_SAMPLES_def)
qed

text \<open>
  Claim C7 as it is worded, that a sample count is chosen whatever the engine, fails on
  the example document, whose engine is not Cycles: neither sample setting is written, and
  neither equals \<^verbatim>\<open>RENDER_SAMPLES\<close>.
\<close>

theorem render_preview_eevee_sets_no_samples:
  "engine (render (doc demo_host)) = ''BLENDER_EEVEE'' \<and>
   cycles_samples (doc (render_preview demo_env demo_host)) = cycles_samples (doc demo_host) \<and>
   eevee_taa_render_samples (doc (render_preview demo_env demo_host)) =
     eevee_taa_render_samples (doc demo_host) \<and>
   cycles_samples (doc (render_preview demo_env demo_host)) \<noteq> RENDER_SAMPLES \<and>
   eevee_taa_render_samples (doc (render_preview demo_env demo_host)) \<noteq> RENDER_SAMPLES"
  by (simp add: render_preview_eq Let_def demo_host_def demo_doc_def demo_render_def
      RENDER_SAMPLES_def)

text \<open>
  Claim C8. Run on the document that a completed build saved, the preview renderer writes
  one image at the configured path, as PNG in RGB, 1920 by 1080 pixels: the resolution is
  the one the builder stored, and of the render settings the renderer writes only the
  path, the format and the colour mode.
\<close>

theorem preview_of_built_scene:
  "path_exists e (path_join (script_dir e) IMAGE_FILENAME) \<Longrightarrow>
   returned (main e h) \<Longrightarrow>
   doc h2 = snd (last (blend_files (ended (main e h)))) \<Longrightarrow>
   (let h' = render_preview e2 h2 in
      image_files h' = image_files h2 @
        [(path_join (script_dir e2) OUTPUT_FILENAME,
          \<lparr>rr_format = ''PNG'', rr_color_mode = ''RGB'', rr_width = 1920, rr_height = 1080\<rparr>)] \<and>
      render (doc h') = (render (doc h2))
        \<lparr>render_filepath := path_join (script_dir e2) OUTPUT_FILENAME,
         file_format := ''PNG'', color_mode := ''RGB''\<rparr> \<and>
      resolution_x (render (doc h')) = 1920 \<and>
      resolution_y (render (doc h')) = 1080 \<and>
      resolution_percentage (render (doc h')) = 100)"
proof -
  assume a: "path_exists e (path_join (script_dir e) IMAGE_FILENAME)"
    and w: "returned (main e h)"
    and b: "doc h2 = snd (last (blend_files (ended (main e h))))"
  note m = main_present [OF a, of h, unfolded Let_def]
  from m w have wr: "world_ready e (doc h)"
    by blast
  from m wr have "blend_files (ended (main e h)) =
        blend_files h @ [(path_join (script_dir e) ''mandelbrot_3d_scene.blend'',
                          doc (ended (main e h)))]"
    by simp
  with b have d: "doc h2 = doc (ended (main e h))" by simp
  from m wr have "render (doc (ended (main e h))) = (render (doc h))
             \<lparr>engine := ''CYCLES'', resolution_x := 1920, resolution_y := 1080,
              resolution_percentage := 100\<rparr>"
    by blast
  with d have r: "resolution_x (render (doc h2)) = 1920" "resolution_y (render (doc h2)) = 1080"
    "resolution_percentage (render (doc h2)) = 100"
    by simp_all
  show ?thesis
    by (simp add: render_preview_eq Let_def r)
qed

theorem preview_of_built_scene_witness:
  "path_exists demo_env (path_join (script_dir demo_env) IMAGE_FILENAME) \<and>
   returned (main demo_env demo_host) \<and>
   doc (opened (snd (last (blend_files (ended (main demo_env demo_host)))))) =
     snd (last (blend_files (ended (main demo_env demo_host)))) \<and>
   image_files (render_preview demo_env
                  (opened (snd (last (blend_files (ended (main demo_env demo_host))))))) =
     [(''/work/mandelbrot_3d_preview.png'',
       \<lparr>rr_format = ''PNG'', rr_color_mode = ''RGB'', rr_width = 1920, rr_height = 1080\<rparr>)]"
proof -
  have o: "doc (opened (snd (last (blend_files (ended (main demo_env demo_host)))))) =
     snd (last (blend_files (ended (main demo_env demo_host))))"
    "image_files (opened (snd (last (blend_files (ended (main demo_env demo_host)))))) = []"
    by (simp_all add: opened_def)
  have w: "returned (main demo_env demo_host)"
    using main_present [OF demo_present, of demo_host]
    by (simp add: Let_def demo_host_facts)
  from preview_of_built_scene [OF demo_present w o(1), of demo_env]
  show ?thesis
    by (simp add: Let_def o w demo_paths demo_exists)
qed

text \<open>
  Claim C9. The material's node tree holds four nodes: the material output, the principled
  shader, the image texture (with the image) and the colour ramp. Its links are exactly
  two, from the image texture's colour to the shader's base colour and from the shader to
  the output's surface; no link starts or ends at the colour ramp.
\<close>

theorem shader_graph_links:
  "let r = create_heightmap_mesh e img n s p h;
       d' = doc (snd r);
       mat = fresh (material_ids (doc h));
       m = material_at d' mat
   in material_ids d' = material_ids (doc h) @ [mat] \<and>
      ob_data (object_at d' (fst r)) = MESH (fresh (mesh_ids (doc h))) \<and>
      msh_materials (mesh_at d' (fresh (mesh_ids (doc h)))) = [mat] \<and>
      map nd_type (nodes m) =
        [''ShaderNodeOutputMaterial'', ''ShaderNodeBsdfPrincipled'', ''ShaderNodeTexImage'',
         ''ShaderNodeValToRGB''] \<and>
      nd_image (nodes m ! 2) = Some img \<and>
      links m =
        [\<lparr>from_node = 2, from_socket = ''Color'', to_node = 1, to_socket = ''Base Color''\<rparr>,
         \<lparr>from_node = 1, from_socket = ''BSDF'', to_node = 0, to_socket = ''Surface''\<rparr>] \<and>
      (\<forall>l \<in> set (links m). from_node l \<noteq> 3 \<and> to_node l \<noteq> 3)"
  by (simp add: create_heightmap_mesh_eq Let_def subdivide_funpow_materials)

theorem shader_graph_links_witness:
  "links (material_at (doc (snd (create_heightmap_mesh demo_env demo_image SUBDIVISION_LEVEL
                                   DISPLACEMENT_STRENGTH PLANE_SIZE demo_host))) 1) =
     [\<lparr>from_node = 2, from_socket = ''Color'', to_node = 1, to_socket = ''Base Color''\<rparr>,
      \<lparr>from_node = 1, from_socket = ''BSDF'', to_node = 0, to_socket = ''Surface''\<rparr>] \<and>
   map from_node (links (material_at (doc (snd (create_heightmap_mesh demo_env demo_image
        SUBDIVISION_LEVEL DISPLACEMENT_STRENGTH PLANE_SIZE demo_host))) 1)) = [2, 1] \<and>
   map to_node (links (material_at (doc (snd (create_heightmap_mesh demo_env demo_image
        SUBDIVISION_LEVEL DISPLACEMENT_STRENGTH PLANE_SIZE demo_host))) 1)) = [1, 0]"
  using shader_graph_links [of demo_env demo_image SUBDIVISION_LEVEL
      DISPLACEMENT_STRENGTH PLANE_SIZE demo_host]
  by (simp add: Let_def demo_host_facts)

text \<open>
  Claim C10, as the code has it. \<^verbatim>\<open>main\<close> clears the scene before it looks for the
  image, so when the image is missing the document it leaves is the one the clear step
  left: without the objects that were within reach of the selection operators, without
  the objects on a mesh, without any mesh or material, and with the other objects still
  there. It is not the document \<^verbatim>\<open>main\<close> was given whenever that held a mesh, a material
  or an object that does not stay.
\<close>

theorem missing_image_leaves_document_cleared:
  "\<not> path_exists e (path_join (script_dir e) IMAGE_FILENAME) \<Longrightarrow>
   returned (main e h) \<and>
   doc (ended (main e h)) = doc (clear_scene h) \<and>
   object_ids (doc (ended (main e h))) = filter (stays (doc h)) (object_ids (doc h)) \<and>
   mesh_ids (doc (ended (main e h))) = [] \<and>
   material_ids (doc (ended (main e h))) = [] \<and>
   (all_selectable (doc h) \<longrightarrow> object_ids (doc (ended (main e h))) = []) \<and>
   (\<not> list_all (stays (doc h)) (object_ids (doc h)) \<or> mesh_ids (doc h) \<noteq> [] \<or>
    material_ids (doc h) \<noteq> [] \<longrightarrow> doc (ended (main e h)) \<noteq> doc h)"
proof -
  assume a: "\<not> path_exists e (path_join (script_dir e) IMAGE_FILENAME)"
  have r: "returned (main e h)"
    by (simp add: main_missing [OF a] returned_def)
  have eq: "doc (ended (main e h)) = doc (clear_scene h)"
    by (simp add: main_missing [OF a] ended_def doc_print_line clear_scene_print_line)
  have ne: "doc (clear_scene h) \<noteq> doc h"
    if "\<not> list_all (stays (doc h)) (object_ids (doc h)) \<or> mesh_ids (doc h) \<noteq> [] \<or>
        material_ids (doc h) \<noteq> []"
  proof -
    from that consider "filter (stays (doc h)) (object_ids (doc h)) \<noteq> object_ids (doc h)"
      | "mesh_ids (doc h) \<noteq> []" | "material_ids (doc h) \<noteq> []"
      by (auto simp add: filter_id_conv list_all_iff)
    then show ?thesis
    proof cases
      case 1
      then have "object_ids (doc (clear_scene h)) \<noteq> object_ids (doc h)"
        by (simp add: clear_scene_facts)
      then show ?thesis by auto
    next
      case 2
      then have "mesh_ids (doc (clear_scene h)) \<noteq> mesh_ids (doc h)"
        by (simp add: clear_scene_facts)
      then show ?thesis by auto
    next
      case 3
      then have "material_ids (doc (clear_scene h)) \<noteq> material_ids (doc h)"
        by (simp add: clear_scene_facts)
      then show ?thesis by auto
    qed
  qed
  have s: "all_selectable (doc h) \<longrightarrow> filter (stays (doc h)) (object_ids (doc h)) = []"
    using clear_all_selectable [of h] by (simp add: clear_scene_facts)
  show ?thesis
    unfolding eq using r ne s by (simp add: clear_scene_facts)
qed

theorem missing_image_leaves_document_cleared_witness:
  "\<not> path_exists demo_env_missing (path_join (script_dir demo_env_missing) IMAGE_FILENAME) \<and>
   object_ids (doc demo_host) = [0] \<and> mesh_ids (doc demo_host) = [0] \<and>
   material_ids (doc demo_host) = [0] \<and> all_selectable (doc demo_host) \<and>
   returned (main demo_env_missing demo_host) \<and>
   object_ids (doc (ended (main demo_env_missing demo_host))) = [] \<and>
   mesh_ids (doc (ended (main demo_env_missing demo_host))) = [] \<and>
   material_ids (doc (ended (main demo_env_missing demo_host))) = [] \<and>
   doc (ended (main demo_env_missing demo_host)) \<noteq> doc demo_host"
proof -
  have a: "\<not> path_exists demo_env_missing (path_join (script_dir demo_env_missing) IMAGE_FILENAME)"
    by (simp add: demo_paths demo_exists)
  have b: "all_selectable (doc demo_host)" "mesh_ids (doc demo_host) \<noteq> []"
    by (simp_all add: demo_host_facts)
  from missing_image_leaves_document_cleared [OF a, of demo_host] b
  have "returned (main demo_env_missing demo_host) \<and>
        object_ids (doc (ended (main demo_env_missing demo_host))) = [] \<and>
        mesh_ids (doc (ended (main demo_env_missing demo_host))) = [] \<and>
        material_ids (doc (ended (main demo_env_missing demo_host))) = [] \<and>
        doc (ended (main demo_env_missing demo_host)) \<noteq> doc demo_host"
    by blast
  with a show ?thesis by (simp add: demo_host_facts)
qed

text \<open>
  Claim C10 as it is worded fails on two documents. In the example document with a light
  that is barred from selection the aborted build leaves that light in the document; and
  the document that holds that light alone is left as it was.
\<close>

theorem missing_image_keeps_locked_light:
  "\<not> path_exists demo_env_missing (path_join (script_dir demo_env_missing) IMAGE_FILENAME) \<and>
   object_ids (doc demo_host_lamp) = [0, 1] \<and>
   object_ids (doc (ended (main demo_env_missing demo_host_lamp))) = [1] \<and>
   ob_name (object_at (doc (ended (main demo_env_missing demo_host_lamp))) 1) = ''Light'' \<and>
   object_ids (doc lamp_host) = [1] \<and>
   doc (ended (main demo_env_missing lamp_host)) = doc lamp_host"
proof -
  have a: "\<not> path_exists demo_env_missing (path_join (script_dir demo_env_missing) IMAGE_FILENAME)"
    by (simp add: demo_paths demo_exists)
  have d: "doc (ended (main demo_env_missing x)) = doc (clear_scene x)" for x
    by (simp add: main_missing [OF a] ended_def doc_print_line clear_scene_print_line)
  have l: "doc (clear_scene lamp_host) = doc lamp_host"
    by (simp add: clear_scene_eq lamp_host_def demo_doc_def demo_lamp_def object_select_all_def
        selectable_def stays_def keep_live_def)
  show ?thesis
    using a by (simp add: d l demo_host_lamp_facts other_host_facts)
qed

end
